theory Spec2Isabelle
  imports Complex_Main "HOL-Library.Word"
begin

text \<open>
  The repository holds three variants of one bridge between a telephony media stream
  (the caller leg, \<^verbatim>\<open>twilioSocket\<close>) and a conversational agent (the agent leg,
  \<^verbatim>\<open>elevenlabsSocket\<close>): media-bridge.ts, which exchanges JSON with the agent and answers
  its pings and interruptions, and two variants that exchange binary audio with the
  agent and queue caller audio until the agent socket is open. Each variant is a set of
  event handlers closing over a few variables. A handler is modelled as a function on
  the state of the call; the runtime is modelled by the events it may deliver in a
  state, and a call is a sequence of such events.
\<close>

section \<open>JavaScript values as the handlers see them\<close>

text \<open>
  Every handler of the bridge starts from \<^verbatim>\<open>JSON.parse(event.data)\<close> and then reads
  properties of the parsed value. The value is modelled as the tree that the parser
  returns, extended with \<^verbatim>\<open>undefined\<close>, which a property read yields for a missing key.
  A finite number is given by its value, a rational (every double is one, and \<^verbatim>\<open>-0\<close> is
  not told from \<^verbatim>\<open>0\<close>). \<open>JInfinity neg\<close> is the number \<^verbatim>\<open>Infinity\<close>, or \<^verbatim>\<open>-Infinity\<close> when
  \<open>neg\<close> holds: the parser returns it for a number literal beyond the range of a double,
  such as \<^verbatim>\<open>1e400\<close>. An object is the sequence of its properties in the order in which
  the engine enumerates them, each key once; of a list that repeats a key, which stands
  for no object, the last occurrence is read.
\<close>

datatype jsval =
    JUndefined
  | JNull
  | JBool bool
  | JNum rat
  | JInfinity bool
  | JStr string
  | JArr "jsval list"
  | JObj "(string \<times> jsval) list"

text \<open>Truthiness, as used by \<^verbatim>\<open>if (x)\<close>, \<^verbatim>\<open>a && b\<close> and \<^verbatim>\<open>a || b\<close>.\<close>

fun truthy :: "jsval \<Rightarrow> bool" where
  "truthy JUndefined = False"
| "truthy JNull = False"
| "truthy (JBool b) = b"
| "truthy (JNum n) = (n \<noteq> 0)"
| "truthy (JInfinity neg) = True"
| "truthy (JStr s) = (s \<noteq> [])"
| "truthy (JArr xs) = True"
| "truthy (JObj kvs) = True"

fun nullish :: "jsval \<Rightarrow> bool" where
  "nullish JUndefined = True"
| "nullish JNull = True"
| "nullish v = False"

text \<open>
  The value of property \<open>k\<close> of a value that is neither \<^verbatim>\<open>null\<close> nor \<^verbatim>\<open>undefined\<close>, for
  the property names the bridge reads (none of them is a built-in property of strings,
  numbers, booleans or arrays, so those yield \<^verbatim>\<open>undefined\<close>).
\<close>

fun js_field :: "jsval \<Rightarrow> string \<Rightarrow> jsval" where
  "js_field (JObj kvs) k = (case map_of (rev kvs) k of None \<Rightarrow> JUndefined | Some v \<Rightarrow> v)"
| "js_field v k = JUndefined"

text \<open>\<^verbatim>\<open>v.k\<close>: a TypeError (\<open>None\<close>) when \<open>v\<close> is \<^verbatim>\<open>null\<close> or \<^verbatim>\<open>undefined\<close>.\<close>

definition js_get :: "jsval \<Rightarrow> string \<Rightarrow> jsval option" where
  "js_get v k = (if nullish v then None else Some (js_field v k))"

text \<open>\<^verbatim>\<open>v?.k\<close>: \<^verbatim>\<open>undefined\<close> when \<open>v\<close> is \<^verbatim>\<open>null\<close> or \<^verbatim>\<open>undefined\<close>.\<close>

definition js_get_opt :: "jsval \<Rightarrow> string \<Rightarrow> jsval" where
  "js_get_opt v k = (if nullish v then JUndefined else js_field v k)"

text \<open>\<^verbatim>\<open>a || b\<close>.\<close>

definition js_or :: "jsval \<Rightarrow> jsval \<Rightarrow> jsval" where
  "js_or a b = (if truthy a then a else b)"

text \<open>
  \<^verbatim>\<open>JSON.stringify(v)\<close>, given by the value that a JSON parser reads from the text it
  returns (\<^verbatim>\<open>undefined\<close> when it returns no text). A number that is not finite is written
  as \<^verbatim>\<open>null\<close>; so is an array element that is \<^verbatim>\<open>undefined\<close>; a property whose value is
  \<^verbatim>\<open>undefined\<close> is left out of the text. An engine gives up (a RangeError) on a value
  nested too deeply for its stack; that limit is not part of the model.
\<close>

primrec json_stringify :: "jsval \<Rightarrow> jsval" where
  "json_stringify JUndefined = JUndefined"
| "json_stringify JNull = JNull"
| "json_stringify (JBool b) = JBool b"
| "json_stringify (JNum n) = JNum n"
| "json_stringify (JInfinity neg) = JNull"
| "json_stringify (JStr s) = JStr s"
| "json_stringify (JArr xs) =
     JArr (map (\<lambda>v. if v = JUndefined then JNull else v) (map json_stringify xs))"
| "json_stringify (JObj kvs) =
     JObj (filter (\<lambda>kv. snd kv \<noteq> JUndefined) (map (map_prod id json_stringify) kvs))"

text \<open>The values that \<^verbatim>\<open>JSON.stringify\<close> writes as they are, whatever their size: \<^verbatim>\<open>null\<close>,
  the booleans, the finite numbers and the strings.\<close>

fun json_scalar :: "jsval \<Rightarrow> bool" where
  "json_scalar JNull = True"
| "json_scalar (JBool b) = True"
| "json_scalar (JNum n) = True"
| "json_scalar (JStr s) = True"
| "json_scalar v = False"


section \<open>WebSockets\<close>

datatype ready_state = CONNECTING | OPEN | CLOSING | CLOSED

text \<open>
  \<^verbatim>\<open>socket.close()\<close>: starts the closing handshake of an open socket, fails a connecting
  one, and does nothing to a socket that is closing or closed.
\<close>

fun ws_close :: "ready_state \<Rightarrow> ready_state" where
  "ws_close CONNECTING = CLOSING"
| "ws_close OPEN = CLOSING"
| "ws_close CLOSING = CLOSING"
| "ws_close CLOSED = CLOSED"

type_synonym bytes = "8 word list"

text \<open>What a socket transmits: a text frame (given by the JSON value it carries) or a
  binary frame.\<close>

datatype ws_frame = TextFrame jsval | BinaryFrame bytes

text \<open>
  \<^verbatim>\<open>event.data\<close> of a message event: the text of a text frame, given by what
  \<^verbatim>\<open>JSON.parse\<close> makes of it (\<open>None\<close> when it throws), or the Blob of a binary frame.
\<close>

datatype ws_data = Text "jsval option" | Blob bytes

text \<open>\<^verbatim>\<open>JSON.parse(event.data)\<close>; a Blob is converted to the text \<^verbatim>\<open>[object Blob]\<close>, which
  is not JSON.\<close>

fun json_parse :: "ws_data \<Rightarrow> jsval option" where
  "json_parse (Text r) = r"
| "json_parse (Blob b) = None"


section \<open>Base64, as \<^verbatim>\<open>btoa\<close> and \<^verbatim>\<open>atob\<close> compute it\<close>

definition b64_alphabet :: string where
  "b64_alphabet = ''ABCDEFGHIJKLMNOPQRSTUVWXYZabcdefghijklmnopqrstuvwxyz0123456789+/''"

definition b64_char :: "nat \<Rightarrow> char" where
  "b64_char n = b64_alphabet ! n"

fun index_of :: "'a \<Rightarrow> 'a list \<Rightarrow> nat option" where
  "index_of x [] = None"
| "index_of x (y # ys) = (if x = y then Some 0 else map_option Suc (index_of x ys))"

definition b64_index :: "char \<Rightarrow> nat option" where
  "b64_index c = index_of c b64_alphabet"

text \<open>The 6-bit groups of a byte sequence; the last group is filled with zero bits.\<close>

fun sextets :: "bytes \<Rightarrow> nat list" where
  "sextets (a # b # c # rest) =
     [unat a div 4, (unat a mod 4) * 16 + unat b div 16,
      (unat b mod 16) * 4 + unat c div 64, unat c mod 64] @ sextets rest"
| "sextets [a, b] = [unat a div 4, (unat a mod 4) * 16 + unat b div 16, (unat b mod 16) * 4]"
| "sextets [a] = [unat a div 4, (unat a mod 4) * 16]"
| "sextets [] = []"

text \<open>\<^verbatim>\<open>btoa(s)\<close> for a string \<open>s\<close> whose code units are all below 256, given by these code
  units: the padded Base64 text of RFC 4648. (On such a string \<^verbatim>\<open>btoa\<close> does not throw.)\<close>

definition btoa :: "bytes \<Rightarrow> string" where
  "btoa bs = map b64_char (sextets bs) @ replicate ((3 - length bs mod 3) mod 3) (CHR ''='')"

definition ascii_whitespace :: "char \<Rightarrow> bool" where
  "ascii_whitespace c = (c \<in> set [CHR 0x09, CHR 0x0A, CHR 0x0C, CHR 0x0D, CHR 0x20])"

definition strip_padding :: "string \<Rightarrow> string" where
  "strip_padding d =
     (if 2 \<le> length d \<and> last d = CHR ''='' \<and> last (butlast d) = CHR ''=''
      then butlast (butlast d)
      else if d \<noteq> [] \<and> last d = CHR ''='' then butlast d else d)"

text \<open>The bytes of a sequence of 6-bit groups; left-over bits of the last group are
  discarded.\<close>

fun octets :: "nat list \<Rightarrow> bytes" where
  "octets (w # x # y # z # rest) =
     [of_nat (w * 4 + x div 16), of_nat ((x mod 16) * 16 + y div 4),
      of_nat ((y mod 4) * 64 + z)] @ octets rest"
| "octets [w, x, y] = [of_nat (w * 4 + x div 16), of_nat ((x mod 16) * 16 + y div 4)]"
| "octets [w, x] = [of_nat (w * 4 + x div 16)]"
| "octets xs = []"

text \<open>
  \<^verbatim>\<open>Uint8Array.from(atob(s), c => c.charCodeAt(0))\<close>. \<^verbatim>\<open>atob\<close> is the forgiving Base64
  decoder of the HTML standard: ASCII whitespace is removed; if the length is then a
  multiple of four, one or two trailing \<^verbatim>\<open>=\<close> are removed; a length of 1 modulo 4 or a
  character outside the alphabet is an error (\<open>None\<close>: \<^verbatim>\<open>atob\<close> throws).
\<close>

definition atob :: "string \<Rightarrow> bytes option" where
  "atob data =
     (let d1 = filter (\<lambda>c. \<not> ascii_whitespace c) data;
          d2 = (if length d1 mod 4 = 0 then strip_padding d1 else d1)
      in if length d2 mod 4 = 1 then None
         else map_option octets (those (map b64_index d2)))"


section \<open>The call context\<close>

text \<open>
  The variables that the handlers of one call close over, the \<^verbatim>\<open>readyState\<close> of the two
  sockets, and a log of what each socket has transmitted and of the \<^verbatim>\<open>close()\<close> calls made
  on it. \<open>awaiting_fetch\<close> holds while \<^verbatim>\<open>twilioSocket.onopen\<close> is suspended at its
  \<^verbatim>\<open>await\<close>s.
\<close>

record bridge_state =
  twilioSocket :: ready_state
  elevenlabsSocket :: "ready_state option"
  streamSid :: jsval
  elevenlabsReady :: bool
  awaiting_fetch :: bool
  twilio_sent :: "ws_frame list"
  elevenlabs_sent :: "ws_frame list"
  twilio_close_calls :: nat
  elevenlabs_close_calls :: nat

text \<open>
  The request parameters used by the handlers, and what the handlers take from the
  engine: \<^verbatim>\<open>decodeURIComponent\<close> (\<open>None\<close> when it throws a URIError), the text of a finite
  number (\<^verbatim>\<open>Number.prototype.toString\<close>), and the largest number of arguments that the
  engine accepts in one call, which depends on its stack (about 125000 in V8 with the
  default stack).
\<close>

record bridge_env =
  businessName :: string
  phoneNumber :: string
  decodeURIComponent :: "string \<Rightarrow> string option"
  NumberToString :: "rat \<Rightarrow> string"
  argument_limit :: nat

text \<open>\<^verbatim>\<open>Array.prototype.join\<close> with the separator \<^verbatim>\<open>,\<close>, on the texts of the elements.\<close>

fun join :: "string list \<Rightarrow> string" where
  "join [] = []"
| "join [x] = x"
| "join (x # y # ys) = x @ '','' @ join (y # ys)"

text \<open>
  The conversion to a string that \<^verbatim>\<open>atob\<close> applies to its argument: a string is taken as
  it is; an array is the texts of its elements joined by commas, with the empty text for
  an element that is \<^verbatim>\<open>null\<close> or \<^verbatim>\<open>undefined\<close>.
\<close>

fun ToString :: "bridge_env \<Rightarrow> jsval \<Rightarrow> string" where
  "ToString env JUndefined = ''undefined''"
| "ToString env JNull = ''null''"
| "ToString env (JBool b) = (if b then ''true'' else ''false'')"
| "ToString env (JNum n) = NumberToString env n"
| "ToString env (JInfinity neg) = (if neg then ''-Infinity'' else ''Infinity'')"
| "ToString env (JStr s) = s"
| "ToString env (JArr xs) = join (map (\<lambda>x. if nullish x then [] else ToString env x) xs)"
| "ToString env (JObj kvs) = ''[object Object]''"

text \<open>\<^verbatim>\<open>Uint8Array.from(atob(v), c => c.charCodeAt(0))\<close> for a value \<open>v\<close> read from a
  message.\<close>

definition atob_value :: "bridge_env \<Rightarrow> jsval \<Rightarrow> bytes option" where
  "atob_value env v = atob (ToString env v)"

text \<open>
  \<^verbatim>\<open>String.fromCharCode(...audioData)\<close>: the string whose code units are the bytes, given
  by these code units. The call has one argument for each byte; the engine throws a
  RangeError (\<open>None\<close>) when there are more than it accepts.
\<close>

definition String_fromCharCode :: "bridge_env \<Rightarrow> bytes \<Rightarrow> bytes option" where
  "String_fromCharCode env audioData =
     (if length audioData \<le> argument_limit env then Some audioData else None)"

definition twilio_close :: "'a bridge_state_scheme \<Rightarrow> 'a bridge_state_scheme" where
  "twilio_close s =
     s\<lparr>twilioSocket := ws_close (twilioSocket s),
       twilio_close_calls := Suc (twilio_close_calls s)\<rparr>"

definition elevenlabs_close :: "'a bridge_state_scheme \<Rightarrow> 'a bridge_state_scheme" where
  "elevenlabs_close s =
     s\<lparr>elevenlabsSocket := map_option ws_close (elevenlabsSocket s),
       elevenlabs_close_calls := Suc (elevenlabs_close_calls s)\<rparr>"

text \<open>
  \<^verbatim>\<open>socket.send(frame)\<close> transmits on an open socket. On a socket that is not open nothing
  is transmitted: the runtime throws or discards the frame. Outside the \<^verbatim>\<open>open\<close> handlers
  every such call is the last statement of its branch and sits in a \<^verbatim>\<open>try\<close>, so either
  way the state is left as it is. The \<^verbatim>\<open>open\<close> handlers run on an open socket; on any
  other state they are modelled as stopping at their first \<^verbatim>\<open>send\<close>.
\<close>

definition twilio_send :: "ws_frame \<Rightarrow> 'a bridge_state_scheme \<Rightarrow> 'a bridge_state_scheme" where
  "twilio_send f s =
     (if twilioSocket s = OPEN then s\<lparr>twilio_sent := twilio_sent s @ [f]\<rparr> else s)"

definition elevenlabs_send :: "ws_frame \<Rightarrow> 'a bridge_state_scheme \<Rightarrow> 'a bridge_state_scheme" where
  "elevenlabs_send f s =
     (if elevenlabsSocket s = Some OPEN then s\<lparr>elevenlabs_sent := elevenlabs_sent s @ [f]\<rparr>
      else s)"

datatype fetch_result = NotOk | Ok_signed_url | Threw

datatype event =
    TwilioOpen
  | FetchDone fetch_result
  | TwilioMessage "jsval option"
  | TwilioError
  | TwilioClose
  | ElevenlabsOpen
  | ElevenlabsMessage ws_data
  | ElevenlabsError
  | ElevenlabsClose
  | BlobRead bytes


section \<open>media-bridge.ts\<close>

definition mb_init :: bridge_state where
  "mb_init =
     \<lparr>twilioSocket = CONNECTING, elevenlabsSocket = None, streamSid = JNull,
      elevenlabsReady = False, awaiting_fetch = False, twilio_sent = [],
      elevenlabs_sent = [], twilio_close_calls = 0, elevenlabs_close_calls = 0\<rparr>"

text \<open>
  \<^verbatim>\<open>twilioSocket.onopen\<close> after the credential exchange has settled (lines 48 to 151):
  a response that is not ok closes the caller socket and returns; an exception (the
  fetch, \<^verbatim>\<open>response.json()\<close> or the WebSocket constructor) closes it in the \<^verbatim>\<open>catch\<close>;
  otherwise the agent socket is created.
\<close>

fun twilioSocket_onopen_resume ::
  "fetch_result \<Rightarrow> 'a bridge_state_scheme \<Rightarrow> 'a bridge_state_scheme" where
  "twilioSocket_onopen_resume NotOk s = twilio_close s"
| "twilioSocket_onopen_resume Threw s = twilio_close s"
| "twilioSocket_onopen_resume Ok_signed_url s = s\<lparr>elevenlabsSocket := Some CONNECTING\<rparr>"

definition mb_initMessage :: "bridge_env \<Rightarrow> string \<Rightarrow> jsval" where
  "mb_initMessage env decoded =
     json_stringify (JObj
       [(''type'', JStr ''conversation_initiation_client_data''),
        (''conversation_config_override'',
           JObj [(''agent'',
             JObj [(''prompt'',
                      JObj [(''prompt'',
                        JStr (''The caller's business name is '' @ businessName env @
                              ''. Their phone number is '' @ phoneNumber env @ ''.''))]),
                   (''first_message'',
                      JStr (''Hi '' @ decoded @
                            ''! Thanks for calling. How can I help you today?''))])])])"

text \<open>\<^verbatim>\<open>elevenlabsSocket.onopen\<close> (lines 63 to 82). The handler has no \<^verbatim>\<open>try\<close>: a URIError
  of \<^verbatim>\<open>decodeURIComponent\<close> ends it before anything is sent and before the ready flag is
  set. What the runtime does with the uncaught exception is outside the model.\<close>

definition mb_elevenlabsSocket_onopen ::
  "bridge_env \<Rightarrow> 'a bridge_state_scheme \<Rightarrow> 'a bridge_state_scheme" where
  "mb_elevenlabsSocket_onopen env s =
     (case decodeURIComponent env (businessName env) of
        None \<Rightarrow> s
      | Some decoded \<Rightarrow>
          if elevenlabsSocket s = Some OPEN
          then (elevenlabs_send (TextFrame (mb_initMessage env decoded)) s)
                 \<lparr>elevenlabsReady := True\<rparr>
          else s)"

definition media_frame :: "jsval \<Rightarrow> jsval \<Rightarrow> ws_frame" where
  "media_frame sid payload =
     TextFrame (json_stringify (JObj
       [(''event'', JStr ''media''), (''streamSid'', sid),
        (''media'', JObj [(''payload'', payload)])]))"

definition clear_frame :: "jsval \<Rightarrow> ws_frame" where
  "clear_frame sid =
     TextFrame (json_stringify (JObj [(''event'', JStr ''clear''), (''streamSid'', sid)]))"

definition pong_frame :: "jsval \<Rightarrow> ws_frame" where
  "pong_frame event_id =
     TextFrame (json_stringify (JObj [(''type'', JStr ''pong''), (''event_id'', event_id)]))"

text \<open>The cases of the \<^verbatim>\<open>switch\<close> of \<^verbatim>\<open>elevenlabsSocket.onmessage\<close>: \<^verbatim>\<open>"audio"\<close>
  (lines 89 to 103), \<^verbatim>\<open>"interruption"\<close> (lines 105 to 113) and \<^verbatim>\<open>"ping"\<close> (lines 115 to
  123).\<close>

definition mb_case_audio :: "jsval \<Rightarrow> 'a bridge_state_scheme \<Rightarrow> 'a bridge_state_scheme" where
  "mb_case_audio message s =
     (if truthy (streamSid s) \<and> twilioSocket s = OPEN then
        (let audioPayload =
               js_or (js_get_opt (js_field message ''audio'') ''chunk'')
                     (js_get_opt (js_field message ''audio_event'') ''audio_base_64'')
         in if truthy audioPayload
            then twilio_send (media_frame (streamSid s) audioPayload) s
            else s)
      else s)"

definition mb_case_interruption :: "'a bridge_state_scheme \<Rightarrow> 'a bridge_state_scheme" where
  "mb_case_interruption s =
     (if truthy (streamSid s) \<and> twilioSocket s = OPEN
      then twilio_send (clear_frame (streamSid s)) s
      else s)"

definition mb_case_ping :: "jsval \<Rightarrow> 'a bridge_state_scheme \<Rightarrow> 'a bridge_state_scheme" where
  "mb_case_ping message s =
     (if truthy (js_get_opt (js_field message ''ping_event'') ''event_id'')
      then elevenlabs_send
             (pong_frame (js_field (js_field message ''ping_event'') ''event_id'')) s
      else s)"

text \<open>\<^verbatim>\<open>elevenlabsSocket.onmessage\<close> (lines 84 to 135); the remaining cases only log, and
  an exception is caught and logged.\<close>

definition mb_elevenlabsSocket_onmessage ::
  "ws_data \<Rightarrow> 'a bridge_state_scheme \<Rightarrow> 'a bridge_state_scheme" where
  "mb_elevenlabsSocket_onmessage data s =
     (case json_parse data of
        None \<Rightarrow> s
      | Some message \<Rightarrow>
         (case js_get message ''type'' of
            None \<Rightarrow> s
          | Some ty \<Rightarrow>
             if ty = JStr ''audio'' then mb_case_audio message s
             else if ty = JStr ''interruption'' then mb_case_interruption s
             else if ty = JStr ''ping'' then mb_case_ping message s
             else s))"

text \<open>\<^verbatim>\<open>elevenlabsSocket.onclose\<close> (lines 141 to 146).\<close>

definition elevenlabsSocket_onclose :: "'a bridge_state_scheme \<Rightarrow> 'a bridge_state_scheme" where
  "elevenlabsSocket_onclose s = (if twilioSocket s = OPEN then twilio_close s else s)"

text \<open>The branches of \<^verbatim>\<open>twilioSocket.onmessage\<close>: \<^verbatim>\<open>start\<close> (lines 158 to 160), \<^verbatim>\<open>media\<close>
  (lines 161 to 167) and \<^verbatim>\<open>stop\<close> (lines 168 to 173).\<close>

definition branch_start :: "jsval \<Rightarrow> 'a bridge_state_scheme \<Rightarrow> 'a bridge_state_scheme" where
  "branch_start message s =
     (case js_get (js_field message ''start'') ''streamSid'' of
        None \<Rightarrow> s
      | Some sid \<Rightarrow> s\<lparr>streamSid := sid\<rparr>)"

definition mb_branch_media :: "jsval \<Rightarrow> 'a bridge_state_scheme \<Rightarrow> 'a bridge_state_scheme" where
  "mb_branch_media message s =
     (if elevenlabsReady s \<and> elevenlabsSocket s = Some OPEN then
        (case js_get (js_field message ''media'') ''payload'' of
           None \<Rightarrow> s
         | Some payload \<Rightarrow>
             elevenlabs_send
               (TextFrame (json_stringify (JObj [(''user_audio_chunk'', payload)]))) s)
      else s)"

definition branch_stop :: "'a bridge_state_scheme \<Rightarrow> 'a bridge_state_scheme" where
  "branch_stop s = (if elevenlabsSocket s = Some OPEN then elevenlabs_close s else s)"

text \<open>\<^verbatim>\<open>twilioSocket.onmessage\<close> (lines 154 to 177); an exception is caught and logged.\<close>

definition mb_twilioSocket_onmessage ::
  "jsval option \<Rightarrow> 'a bridge_state_scheme \<Rightarrow> 'a bridge_state_scheme" where
  "mb_twilioSocket_onmessage parsed s =
     (case parsed of
        None \<Rightarrow> s
      | Some message \<Rightarrow>
         (case js_get message ''event'' of
            None \<Rightarrow> s
          | Some ev \<Rightarrow>
             if ev = JStr ''start'' then branch_start message s
             else if ev = JStr ''media'' then mb_branch_media message s
             else if ev = JStr ''stop'' then branch_stop s
             else s))"

text \<open>\<^verbatim>\<open>twilioSocket.onclose\<close> (lines 183 to 188).\<close>

definition twilioSocket_onclose :: "'a bridge_state_scheme \<Rightarrow> 'a bridge_state_scheme" where
  "twilioSocket_onclose s =
     (if elevenlabsSocket s = Some OPEN then elevenlabs_close s else s)"

text \<open>
  One event of the runtime. The runtime delivers an event only in the socket states in
  which a WebSocket fires it (\<open>None\<close> otherwise): \<^verbatim>\<open>open\<close> once, on a connecting socket;
  \<^verbatim>\<open>message\<close> on an open socket, and also on a closing one (the WebSocket standard drops a
  message that arrives after \<^verbatim>\<open>close()\<close>, a runtime may still deliver it; the model allows
  both); \<^verbatim>\<open>error\<close> and \<^verbatim>\<open>close\<close> on a socket that is not closed yet, \<^verbatim>\<open>close\<close> making it
  closed before the handler runs. The continuation of \<^verbatim>\<open>twilioSocket.onopen\<close> runs when the
  credential exchange settles, whatever has happened to the caller socket meanwhile. The
  \<^verbatim>\<open>error\<close> handlers of this file only log.
\<close>

fun mb_fire :: "bridge_env \<Rightarrow> event \<Rightarrow> bridge_state \<Rightarrow> bridge_state option" where
  "mb_fire env TwilioOpen s =
     (if twilioSocket s = CONNECTING
      then Some (s\<lparr>twilioSocket := OPEN, awaiting_fetch := True\<rparr>) else None)"
| "mb_fire env (FetchDone r) s =
     (if awaiting_fetch s
      then Some (twilioSocket_onopen_resume r (s\<lparr>awaiting_fetch := False\<rparr>)) else None)"
| "mb_fire env (TwilioMessage parsed) s =
     (if twilioSocket s = OPEN \<or> twilioSocket s = CLOSING
      then Some (mb_twilioSocket_onmessage parsed s) else None)"
| "mb_fire env TwilioError s = (if twilioSocket s \<noteq> CLOSED then Some s else None)"
| "mb_fire env TwilioClose s =
     (if twilioSocket s \<noteq> CLOSED
      then Some (twilioSocket_onclose (s\<lparr>twilioSocket := CLOSED\<rparr>)) else None)"
| "mb_fire env ElevenlabsOpen s =
     (if elevenlabsSocket s = Some CONNECTING
      then Some (mb_elevenlabsSocket_onopen env (s\<lparr>elevenlabsSocket := Some OPEN\<rparr>))
      else None)"
| "mb_fire env (ElevenlabsMessage data) s =
     (if elevenlabsSocket s = Some OPEN \<or> elevenlabsSocket s = Some CLOSING
      then Some (mb_elevenlabsSocket_onmessage data s) else None)"
| "mb_fire env ElevenlabsError s =
     (if elevenlabsSocket s \<noteq> None \<and> elevenlabsSocket s \<noteq> Some CLOSED
      then Some s else None)"
| "mb_fire env ElevenlabsClose s =
     (if elevenlabsSocket s \<noteq> None \<and> elevenlabsSocket s \<noteq> Some CLOSED
      then Some (elevenlabsSocket_onclose (s\<lparr>elevenlabsSocket := Some CLOSED\<rparr>))
      else None)"
| "mb_fire env (BlobRead b) s = None"

fun mb_run :: "bridge_env \<Rightarrow> event list \<Rightarrow> bridge_state \<Rightarrow> bridge_state option" where
  "mb_run env [] s = Some s"
| "mb_run env (e # es) s =
     (case mb_fire env e s of None \<Rightarrow> None | Some s' \<Rightarrow> mb_run env es s')"


section \<open>The variant with binary agent audio and a pending-audio queue (part 001)\<close>

text \<open>\<open>audioBuffer\<close> is the queue of the source; \<open>blob_reads\<close> holds the binary
  frames of the agent whose \<^verbatim>\<open>arrayBuffer()\<close> promise has not resolved yet.\<close>

record p1_state = bridge_state +
  audioBuffer :: "bytes list"
  blob_reads :: "bytes list"

definition p1_init :: p1_state where
  "p1_init =
     \<lparr>twilioSocket = CONNECTING, elevenlabsSocket = None, streamSid = JNull,
      elevenlabsReady = False, awaiting_fetch = False, twilio_sent = [],
      elevenlabs_sent = [], twilio_close_calls = 0, elevenlabs_close_calls = 0,
      audioBuffer = [], blob_reads = []\<rparr>"

definition p1_initMessage :: "bridge_env \<Rightarrow> jsval" where
  "p1_initMessage env =
     json_stringify (JObj
       [(''type'', JStr ''conversation_initiation_client_data''),
        (''conversation_config_override'',
           JObj [(''agent'',
             JObj [(''prompt'',
                      JObj [(''prompt'',
                        JStr (''The caller's business name is '' @ businessName env @
                              ''. Their phone number is '' @ phoneNumber env @ ''.''))]),
                   (''first_message'',
                      JStr (''Hi '' @ businessName env @
                            ''! Thanks for calling. How can I help you today?''))])])])"

text \<open>The loop of lines 88 to 93: \<^verbatim>\<open>shift()\<close> takes the first unit, which is sent (a
  \<^verbatim>\<open>Uint8Array\<close> is an object, hence truthy), until the queue is empty.\<close>

function p1_send_buffered :: "p1_state \<Rightarrow> p1_state" where
  "p1_send_buffered s =
     (case audioBuffer s of
        [] \<Rightarrow> s
      | bufferedAudio # rest \<Rightarrow>
          p1_send_buffered (elevenlabs_send (BinaryFrame bufferedAudio) (s\<lparr>audioBuffer := rest\<rparr>)))"
  by pat_completeness auto
termination
  by (relation "measure (\<lambda>s. length (audioBuffer s))") (auto simp: elevenlabs_send_def)

declare p1_send_buffered.simps [simp del]

text \<open>\<^verbatim>\<open>elevenlabsSocket.onopen\<close> (lines 67 to 94).\<close>

definition p1_elevenlabsSocket_onopen :: "bridge_env \<Rightarrow> p1_state \<Rightarrow> p1_state" where
  "p1_elevenlabsSocket_onopen env s =
     (if elevenlabsSocket s = Some OPEN
      then p1_send_buffered
             ((elevenlabs_send (TextFrame (p1_initMessage env)) s)\<lparr>elevenlabsReady := True\<rparr>)
      else s)"

text \<open>\<^verbatim>\<open>elevenlabsSocket.onmessage\<close> (lines 96 to 123): a Blob is read asynchronously, a
  text frame is parsed and its type logged.\<close>

fun p1_elevenlabsSocket_onmessage :: "ws_data \<Rightarrow> p1_state \<Rightarrow> p1_state" where
  "p1_elevenlabsSocket_onmessage (Blob b) s = s\<lparr>blob_reads := blob_reads s @ [b]\<rparr>"
| "p1_elevenlabsSocket_onmessage (Text r) s = s"

text \<open>The callback of \<^verbatim>\<open>event.data.arrayBuffer().then\<close> (lines 100 to 114). A RangeError
  of the call of \<^verbatim>\<open>String.fromCharCode\<close> ends the callback before anything is sent; it
  rejects a promise that has no handler, and what the runtime does then is outside the
  model.\<close>

definition p1_blob_callback :: "bridge_env \<Rightarrow> bytes \<Rightarrow> p1_state \<Rightarrow> p1_state" where
  "p1_blob_callback env audioData s =
     (case String_fromCharCode env audioData of
        None \<Rightarrow> s
      | Some chars \<Rightarrow>
         (let base64Audio = btoa chars
          in if twilioSocket s = OPEN \<and> truthy (streamSid s)
             then twilio_send (media_frame (streamSid s) (JStr base64Audio)) s
             else s))"

text \<open>The \<^verbatim>\<open>media\<close> branch of \<^verbatim>\<open>twilioSocket.onmessage\<close> (lines 149 to 158).\<close>

definition p1_branch_media :: "bridge_env \<Rightarrow> jsval \<Rightarrow> p1_state \<Rightarrow> p1_state" where
  "p1_branch_media env message s =
     (case js_get (js_field message ''media'') ''payload'' of
        None \<Rightarrow> s
      | Some payload \<Rightarrow>
         (case atob_value env payload of
            None \<Rightarrow> s
          | Some audioData \<Rightarrow>
              if elevenlabsReady s \<and> elevenlabsSocket s = Some OPEN
              then elevenlabs_send (BinaryFrame audioData) s
              else s\<lparr>audioBuffer := audioBuffer s @ [audioData]\<rparr>))"

text \<open>\<^verbatim>\<open>twilioSocket.onmessage\<close> (lines 142 to 168); the \<^verbatim>\<open>start\<close> and \<^verbatim>\<open>stop\<close> branches
  have the text of those of media-bridge.ts.\<close>

definition p1_twilioSocket_onmessage ::
  "bridge_env \<Rightarrow> jsval option \<Rightarrow> p1_state \<Rightarrow> p1_state" where
  "p1_twilioSocket_onmessage env parsed s =
     (case parsed of
        None \<Rightarrow> s
      | Some message \<Rightarrow>
         (case js_get message ''event'' of
            None \<Rightarrow> s
          | Some ev \<Rightarrow>
             if ev = JStr ''start'' then branch_start message s
             else if ev = JStr ''media'' then p1_branch_media env message s
             else if ev = JStr ''stop'' then branch_stop s
             else s))"

text \<open>One event of the runtime, as for \<open>mb_fire\<close>; the remaining handlers have the text
  of those of media-bridge.ts. A Blob read resolves for a Blob that was received.\<close>

fun p1_fire :: "bridge_env \<Rightarrow> event \<Rightarrow> p1_state \<Rightarrow> p1_state option" where
  "p1_fire env TwilioOpen s =
     (if twilioSocket s = CONNECTING
      then Some (s\<lparr>twilioSocket := OPEN, awaiting_fetch := True\<rparr>) else None)"
| "p1_fire env (FetchDone r) s =
     (if awaiting_fetch s
      then Some (twilioSocket_onopen_resume r (s\<lparr>awaiting_fetch := False\<rparr>)) else None)"
| "p1_fire env (TwilioMessage parsed) s =
     (if twilioSocket s = OPEN \<or> twilioSocket s = CLOSING
      then Some (p1_twilioSocket_onmessage env parsed s) else None)"
| "p1_fire env TwilioError s = (if twilioSocket s \<noteq> CLOSED then Some s else None)"
| "p1_fire env TwilioClose s =
     (if twilioSocket s \<noteq> CLOSED
      then Some (twilioSocket_onclose (s\<lparr>twilioSocket := CLOSED\<rparr>)) else None)"
| "p1_fire env ElevenlabsOpen s =
     (if elevenlabsSocket s = Some CONNECTING
      then Some (p1_elevenlabsSocket_onopen env (s\<lparr>elevenlabsSocket := Some OPEN\<rparr>))
      else None)"
| "p1_fire env (ElevenlabsMessage data) s =
     (if elevenlabsSocket s = Some OPEN \<or> elevenlabsSocket s = Some CLOSING
      then Some (p1_elevenlabsSocket_onmessage data s) else None)"
| "p1_fire env ElevenlabsError s =
     (if elevenlabsSocket s \<noteq> None \<and> elevenlabsSocket s \<noteq> Some CLOSED
      then Some s else None)"
| "p1_fire env ElevenlabsClose s =
     (if elevenlabsSocket s \<noteq> None \<and> elevenlabsSocket s \<noteq> Some CLOSED
      then Some (elevenlabsSocket_onclose (s\<lparr>elevenlabsSocket := Some CLOSED\<rparr>))
      else None)"
| "p1_fire env (BlobRead b) s =
     (if b \<in> set (blob_reads s)
      then Some (p1_blob_callback env b (s\<lparr>blob_reads := remove1 b (blob_reads s)\<rparr>))
      else None)"

fun p1_run :: "bridge_env \<Rightarrow> event list \<Rightarrow> p1_state \<Rightarrow> p1_state option" where
  "p1_run env [] s = Some s"
| "p1_run env (e # es) s =
     (case p1_fire env e s of None \<Rightarrow> None | Some s' \<Rightarrow> p1_run env es s')"


section \<open>The variant that queues the Base64 payloads (part 000)\<close>

text \<open>\<open>p0_audioBuffer\<close> is the \<^verbatim>\<open>audioBuffer\<close> of this file, which holds the payloads as
  received. Here \<open>businessName\<close> is the request parameter after \<^verbatim>\<open>decodeURIComponent\<close>,
  which this file applies before the upgrade.\<close>

record p0_state = bridge_state +
  p0_audioBuffer :: "jsval list"
  p0_blob_reads :: "bytes list"

definition p0_init :: p0_state where
  "p0_init =
     \<lparr>twilioSocket = CONNECTING, elevenlabsSocket = None, streamSid = JNull,
      elevenlabsReady = False, awaiting_fetch = False, twilio_sent = [],
      elevenlabs_sent = [], twilio_close_calls = 0, elevenlabs_close_calls = 0,
      p0_audioBuffer = [], p0_blob_reads = []\<rparr>"

definition p0_sessionConfig :: "bridge_env \<Rightarrow> jsval" where
  "p0_sessionConfig env =
     json_stringify (JObj
       [(''type'', JStr ''conversation_initiation_client_data''),
        (''conversation_config_override'',
           JObj [(''agent'',
             JObj [(''first_message'',
                      JStr (''Hi '' @ businessName env @
                            ''! I'm James from AI POS UK. How can I help you today?'')),
                   (''prompt'',
                      JObj [(''prompt'',
                        JStr (''You are James, a friendly sales agent for AI POS UK. '' @
                              ''The caller's business is '' @ businessName env @
                              '' and their phone is '' @ phoneNumber env @
                              ''. Be conversational and helpful.''))])])]),
        (''custom_llm_extra_body'',
           JObj [(''business_name'', JStr (businessName env)),
                 (''phone_number'', JStr (phoneNumber env))])])"

text \<open>\<^verbatim>\<open>audioBuffer.forEach\<close> of lines 86 to 89: each payload is decoded and sent as a binary
  frame; the result is \<open>False\<close> with the state reached so far if \<^verbatim>\<open>atob\<close> throws.\<close>

fun p0_forEach :: "bridge_env \<Rightarrow> jsval list \<Rightarrow> p0_state \<Rightarrow> bool \<times> p0_state" where
  "p0_forEach env [] s = (True, s)"
| "p0_forEach env (base64Audio # rest) s =
     (case atob_value env base64Audio of
        None \<Rightarrow> (False, s)
      | Some mulawData \<Rightarrow> p0_forEach env rest (elevenlabs_send (BinaryFrame mulawData) s))"

text \<open>\<^verbatim>\<open>elevenlabsSocket.onopen\<close> (lines 61 to 91).\<close>

definition p0_elevenlabsSocket_onopen :: "bridge_env \<Rightarrow> p0_state \<Rightarrow> p0_state" where
  "p0_elevenlabsSocket_onopen env s =
     (if elevenlabsSocket s = Some OPEN
      then (case p0_forEach env (p0_audioBuffer s)
                   (elevenlabs_send (TextFrame (p0_sessionConfig env))
                      (s\<lparr>elevenlabsReady := True\<rparr>)) of
              (True, s') \<Rightarrow> s'\<lparr>p0_audioBuffer := []\<rparr>
            | (False, s') \<Rightarrow> s')
      else s\<lparr>elevenlabsReady := True\<rparr>)"

text \<open>\<^verbatim>\<open>elevenlabsSocket.onmessage\<close> (lines 93 to 120): a text frame is parsed and its type
  logged; a Blob is read asynchronously.\<close>

fun p0_elevenlabsSocket_onmessage :: "ws_data \<Rightarrow> p0_state \<Rightarrow> p0_state" where
  "p0_elevenlabsSocket_onmessage (Text r) s = s"
| "p0_elevenlabsSocket_onmessage (Blob b) s = s\<lparr>p0_blob_reads := p0_blob_reads s @ [b]\<rparr>"

text \<open>\<^verbatim>\<open>elevenlabsSocket.onmessage\<close> after \<^verbatim>\<open>await event.data.arrayBuffer()\<close> (lines 102 to
  115); a RangeError of the call of \<^verbatim>\<open>String.fromCharCode\<close> is caught and logged (lines 117
  to 119).\<close>

definition p0_blob_callback :: "bridge_env \<Rightarrow> bytes \<Rightarrow> p0_state \<Rightarrow> p0_state" where
  "p0_blob_callback env audioData s =
     (case String_fromCharCode env audioData of
        None \<Rightarrow> s
      | Some chars \<Rightarrow>
         (let base64Audio = btoa chars
          in if twilioSocket s = OPEN \<and> truthy (streamSid s)
             then twilio_send (media_frame (streamSid s) (JStr base64Audio)) s
             else s))"

text \<open>\<^verbatim>\<open>elevenlabsSocket.onerror\<close> (lines 122 to 125).\<close>

definition p0_elevenlabsSocket_onerror :: "p0_state \<Rightarrow> p0_state" where
  "p0_elevenlabsSocket_onerror s = twilio_close s"

text \<open>The \<^verbatim>\<open>media\<close> branch of \<^verbatim>\<open>twilioSocket.onmessage\<close> (lines 146 to 153), entered when
  \<^verbatim>\<open>message.media?.payload\<close> is truthy.\<close>

definition p0_branch_media :: "bridge_env \<Rightarrow> jsval \<Rightarrow> p0_state \<Rightarrow> p0_state" where
  "p0_branch_media env message s =
     (case atob_value env (js_field (js_field message ''media'') ''payload'') of
        None \<Rightarrow> s
      | Some mulawData \<Rightarrow>
          if elevenlabsReady s \<and> elevenlabsSocket s = Some OPEN
          then elevenlabs_send (BinaryFrame mulawData) s
          else s\<lparr>p0_audioBuffer :=
                   p0_audioBuffer s @ [js_field (js_field message ''media'') ''payload'']\<rparr>)"

text \<open>\<^verbatim>\<open>elevenlabsSocket?.close()\<close> (lines 156 and 166).\<close>

definition p0_close_agent :: "p0_state \<Rightarrow> p0_state" where
  "p0_close_agent s = (if elevenlabsSocket s = None then s else elevenlabs_close s)"

text \<open>\<^verbatim>\<open>twilioSocket.onmessage\<close> (lines 138 to 161).\<close>

definition p0_twilioSocket_onmessage ::
  "bridge_env \<Rightarrow> jsval option \<Rightarrow> p0_state \<Rightarrow> p0_state" where
  "p0_twilioSocket_onmessage env parsed s =
     (case parsed of
        None \<Rightarrow> s
      | Some message \<Rightarrow>
         (case js_get message ''event'' of
            None \<Rightarrow> s
          | Some ev \<Rightarrow>
             if ev = JStr ''start'' then branch_start message s
             else if ev = JStr ''media'' \<and>
                     truthy (js_get_opt (js_field message ''media'') ''payload'')
               then p0_branch_media env message s
             else if ev = JStr ''stop'' then p0_close_agent s
             else s))"

text \<open>One event of the runtime, as for \<open>mb_fire\<close>. \<^verbatim>\<open>twilioSocket.onopen\<close> and
  \<^verbatim>\<open>elevenlabsSocket.onclose\<close> have the text of those of media-bridge.ts;
  \<^verbatim>\<open>twilioSocket.onclose\<close> is \<^verbatim>\<open>elevenlabsSocket?.close()\<close>.\<close>

fun p0_fire :: "bridge_env \<Rightarrow> event \<Rightarrow> p0_state \<Rightarrow> p0_state option" where
  "p0_fire env TwilioOpen s =
     (if twilioSocket s = CONNECTING
      then Some (s\<lparr>twilioSocket := OPEN, awaiting_fetch := True\<rparr>) else None)"
| "p0_fire env (FetchDone r) s =
     (if awaiting_fetch s
      then Some (twilioSocket_onopen_resume r (s\<lparr>awaiting_fetch := False\<rparr>)) else None)"
| "p0_fire env (TwilioMessage parsed) s =
     (if twilioSocket s = OPEN \<or> twilioSocket s = CLOSING
      then Some (p0_twilioSocket_onmessage env parsed s) else None)"
| "p0_fire env TwilioError s = (if twilioSocket s \<noteq> CLOSED then Some s else None)"
| "p0_fire env TwilioClose s =
     (if twilioSocket s \<noteq> CLOSED
      then Some (p0_close_agent (s\<lparr>twilioSocket := CLOSED\<rparr>)) else None)"
| "p0_fire env ElevenlabsOpen s =
     (if elevenlabsSocket s = Some CONNECTING
      then Some (p0_elevenlabsSocket_onopen env (s\<lparr>elevenlabsSocket := Some OPEN\<rparr>))
      else None)"
| "p0_fire env (ElevenlabsMessage data) s =
     (if elevenlabsSocket s = Some OPEN \<or> elevenlabsSocket s = Some CLOSING
      then Some (p0_elevenlabsSocket_onmessage data s) else None)"
| "p0_fire env ElevenlabsError s =
     (if elevenlabsSocket s \<noteq> None \<and> elevenlabsSocket s \<noteq> Some CLOSED
      then Some (p0_elevenlabsSocket_onerror s) else None)"
| "p0_fire env ElevenlabsClose s =
     (if elevenlabsSocket s \<noteq> None \<and> elevenlabsSocket s \<noteq> Some CLOSED
      then Some (elevenlabsSocket_onclose (s\<lparr>elevenlabsSocket := Some CLOSED\<rparr>))
      else None)"
| "p0_fire env (BlobRead b) s =
     (if b \<in> set (p0_blob_reads s)
      then Some (p0_blob_callback env b (s\<lparr>p0_blob_reads := remove1 b (p0_blob_reads s)\<rparr>))
      else None)"

fun p0_run :: "bridge_env \<Rightarrow> event list \<Rightarrow> p0_state \<Rightarrow> p0_state option" where
  "p0_run env [] s = Some s"
| "p0_run env (e # es) s =
     (case p0_fire env e s of None \<Rightarrow> None | Some s' \<Rightarrow> p0_run env es s')"


section \<open>Observations on event sequences\<close>

text \<open>The session identifier that a caller event records: the \<^verbatim>\<open>start.streamSid\<close> of a
  \<^verbatim>\<open>start\<close> event whose handler runs to the assignment.\<close>

fun start_sid :: "event \<Rightarrow> jsval option" where
  "start_sid (TwilioMessage (Some message)) =
     (if js_get message ''event'' = Some (JStr ''start'')
      then js_get (js_field message ''start'') ''streamSid'' else None)"
| "start_sid e = None"

text \<open>The identifier recorded by the most recent \<^verbatim>\<open>start\<close> event of a sequence, starting
  from \<open>sid\<close>.\<close>

fun sid_after :: "jsval \<Rightarrow> event list \<Rightarrow> jsval" where
  "sid_after sid [] = sid"
| "sid_after sid (e # es) = sid_after (case start_sid e of None \<Rightarrow> sid | Some v \<Rightarrow> v) es"

definition recorded_sid :: "event list \<Rightarrow> jsval" where
  "recorded_sid es = sid_after JNull es"

text \<open>The audio unit of a caller \<^verbatim>\<open>media\<close> event whose payload decodes.\<close>

fun media_audio :: "bridge_env \<Rightarrow> event \<Rightarrow> bytes option" where
  "media_audio env (TwilioMessage (Some message)) =
     (if js_get message ''event'' = Some (JStr ''media'')
      then (case js_get (js_field message ''media'') ''payload'' of
              None \<Rightarrow> None
            | Some payload \<Rightarrow> atob_value env payload)
      else None)"
| "media_audio env e = None"

definition media_payloads :: "bridge_env \<Rightarrow> event list \<Rightarrow> bytes list" where
  "media_payloads env es = List.map_filter (media_audio env) es"


text \<open>The audio unit of a caller \<^verbatim>\<open>media\<close> event as part 000 takes it: the payload must
  be truthy and decode.\<close>

fun p0_media_audio :: "bridge_env \<Rightarrow> event \<Rightarrow> bytes option" where
  "p0_media_audio env (TwilioMessage (Some message)) =
     (if js_get message ''event'' = Some (JStr ''media'') \<and>
         truthy (js_get_opt (js_field message ''media'') ''payload'')
      then atob_value env (js_field (js_field message ''media'') ''payload'')
      else None)"
| "p0_media_audio env e = None"

definition p0_media_payloads :: "bridge_env \<Rightarrow> event list \<Rightarrow> bytes list" where
  "p0_media_payloads env es = List.map_filter (p0_media_audio env) es"


section \<open>Sample inputs\<close>

text \<open>The decimal digits of a natural number.\<close>

fun decimal :: "nat \<Rightarrow> string" where
  "decimal n =
     (if n < 10 then [''0123456789'' ! n]
      else decimal (n div 10) @ [''0123456789'' ! (n mod 10)])"

text \<open>An environment for the sample calls. The text of a number is given for the natural
  numbers below \<^verbatim>\<open>1e21\<close>, which \<^verbatim>\<open>toString\<close> writes with their decimal digits; the sample
  inputs hold no other number.\<close>

definition sample_env :: bridge_env where
  "sample_env =
     \<lparr>businessName = ''Acme'', phoneNumber = ''123'', decodeURIComponent = Some,
      NumberToString = (\<lambda>n. decimal (nat \<lfloor>n\<rfloor>)), argument_limit = 125000\<rparr>"


definition start_event :: "jsval \<Rightarrow> jsval" where
  "start_event sid = JObj [(''event'', JStr ''start''), (''start'', JObj [(''streamSid'', sid)])]"

definition media_event :: "jsval \<Rightarrow> jsval" where
  "media_event payload =
     JObj [(''event'', JStr ''media''), (''media'', JObj [(''payload'', payload)])]"

definition ping_message :: "jsval \<Rightarrow> jsval" where
  "ping_message event_id =
     JObj [(''type'', JStr ''ping''), (''ping_event'', JObj [(''event_id'', event_id)])]"

definition audio_message :: "jsval \<Rightarrow> jsval" where
  "audio_message chunk =
     JObj [(''type'', JStr ''audio''), (''audio_event'', JObj [(''audio_base_64'', chunk)])]"

definition interruption_message :: jsval where
  "interruption_message = JObj [(''type'', JStr ''interruption'')]"


section \<open>Invariants and sample states\<close>

text \<open>
  What holds in every state of a call: the credential exchange is pending only after the
  caller socket has opened and before an agent socket exists; an agent socket that has
  not opened yet has been sent nothing, is not ready and has not been closed by the
  bridge; and \<^verbatim>\<open>close()\<close> has been called at most once on either socket, after which that
  socket is closing or closed.
\<close>

definition lifecycle_inv :: "'a bridge_state_scheme \<Rightarrow> bool" where
  "lifecycle_inv s \<longleftrightarrow>
     (twilioSocket s = CONNECTING \<longrightarrow> \<not> awaiting_fetch s \<and> elevenlabsSocket s = None) \<and>
     (awaiting_fetch s \<longrightarrow> elevenlabsSocket s = None) \<and>
     (elevenlabsSocket s = None \<or> elevenlabsSocket s = Some CONNECTING \<longrightarrow>
        \<not> elevenlabsReady s \<and> elevenlabs_sent s = [] \<and> elevenlabs_close_calls s = 0) \<and>
     (elevenlabs_close_calls s = 0 \<or>
      elevenlabs_close_calls s = Suc 0 \<and>
        (elevenlabsSocket s = Some CLOSING \<or> elevenlabsSocket s = Some CLOSED)) \<and>
     (twilio_close_calls s = 0 \<or>
      twilio_close_calls s = Suc 0 \<and> \<not> awaiting_fetch s \<and>
        (twilioSocket s = CLOSING \<or> twilioSocket s = CLOSED) \<and>
        (elevenlabsSocket s = None \<or> elevenlabsSocket s = Some CLOSED))"

text \<open>The state of a call whose credential exchange has failed.\<close>

definition call_failed :: "'a bridge_state_scheme \<Rightarrow> bool" where
  "call_failed s \<longleftrightarrow>
     (twilioSocket s = CLOSING \<or> twilioSocket s = CLOSED) \<and> \<not> awaiting_fetch s \<and>
     elevenlabsSocket s = None \<and> \<not> elevenlabsReady s \<and> elevenlabs_sent s = []"

text \<open>From \<open>s\<close> to \<open>s'\<close> the caller socket has transmitted nothing, or one media or clear
  frame built with the session identifier of \<open>s\<close>, which is truthy, and with a payload.\<close>

definition emits_tagged :: "'a bridge_state_scheme \<Rightarrow> 'a bridge_state_scheme \<Rightarrow> bool" where
  "emits_tagged s s' \<longleftrightarrow>
     twilio_sent s' = twilio_sent s \<or>
     truthy (streamSid s) \<and>
       ((\<exists>payload. twilio_sent s' = twilio_sent s @ [media_frame (streamSid s) payload] \<and>
           payload \<noteq> JUndefined) \<or>
        twilio_sent s' = twilio_sent s @ [clear_frame (streamSid s)])"

definition mb_ready_state :: "jsval \<Rightarrow> bridge_state" where
  "mb_ready_state sid =
     \<lparr>twilioSocket = OPEN, elevenlabsSocket = Some OPEN, streamSid = sid,
      elevenlabsReady = True, awaiting_fetch = False, twilio_sent = [],
      elevenlabs_sent = [TextFrame (mb_initMessage sample_env ''Acme'')],
      twilio_close_calls = 0, elevenlabs_close_calls = 0\<rparr>"

definition mb_awaiting_state :: bridge_state where
  "mb_awaiting_state = mb_init\<lparr>twilioSocket := OPEN, awaiting_fetch := True\<rparr>"


text \<open>What holds in every state of a call of part 000.\<close>

definition p0_inv :: "bridge_env \<Rightarrow> p0_state \<Rightarrow> bool" where
  "p0_inv env s \<longleftrightarrow>
     (twilioSocket s = CONNECTING \<longrightarrow> \<not> awaiting_fetch s \<and> elevenlabsSocket s = None) \<and>
     (awaiting_fetch s \<longrightarrow> elevenlabsSocket s = None) \<and>
     (elevenlabsSocket s = None \<or> elevenlabsSocket s = Some CONNECTING \<longrightarrow>
        \<not> elevenlabsReady s) \<and>
     (\<not> elevenlabsReady s \<longrightarrow> elevenlabs_sent s = []) \<and>
     (\<forall>b \<in> set (p0_audioBuffer s). atob_value env b \<noteq> None)"



section \<open>The codec: \<^verbatim>\<open>atob\<close> undoes \<^verbatim>\<open>btoa\<close>\<close>




























section \<open>Properties of media-bridge.ts\<close>

lemmas send_close_defs = twilio_send_def elevenlabs_send_def twilio_close_def elevenlabs_close_def

lemma truthy_not_undefined: "truthy v \<Longrightarrow> v \<noteq> JUndefined"
  by auto

lemma p1_blob_callback_eq:
  "p1_blob_callback env b s =
     (if length b \<le> argument_limit env \<and> twilioSocket s = OPEN \<and> truthy (streamSid s)
      then twilio_send (media_frame (streamSid s) (JStr (btoa b))) s else s)"
  by (simp add: p1_blob_callback_def String_fromCharCode_def Let_def)

lemma p0_blob_callback_eq:
  "p0_blob_callback env b s =
     (if length b \<le> argument_limit env \<and> twilioSocket s = OPEN \<and> truthy (streamSid s)
      then twilio_send (media_frame (streamSid s) (JStr (btoa b))) s else s)"
  by (simp add: p0_blob_callback_def String_fromCharCode_def Let_def)

lemma mb_twilioSocket_onmessage_cases:
  assumes "P s" "\<And>m. P (branch_start m s)" "\<And>m. P (mb_branch_media m s)" "P (branch_stop s)"
  shows "P (mb_twilioSocket_onmessage parsed s)"
  by (simp add: mb_twilioSocket_onmessage_def assms split: option.splits)

lemma mb_elevenlabsSocket_onmessage_cases:
  assumes "P s" "\<And>m. P (mb_case_audio m s)" "P (mb_case_interruption s)"
    "\<And>m. P (mb_case_ping m s)"
  shows "P (mb_elevenlabsSocket_onmessage data s)"
  by (simp add: mb_elevenlabsSocket_onmessage_def assms split: option.splits)

lemma mb_fire_cases:
  assumes "mb_fire env e s = Some s'"
    and "twilioSocket s = CONNECTING \<Longrightarrow> P (s\<lparr>twilioSocket := OPEN, awaiting_fetch := True\<rparr>)"
    and "\<And>r. awaiting_fetch s \<Longrightarrow> P (twilioSocket_onopen_resume r (s\<lparr>awaiting_fetch := False\<rparr>))"
    and "\<And>parsed. P (mb_twilioSocket_onmessage parsed s)"
    and "P s"
    and "twilioSocket s \<noteq> CLOSED \<Longrightarrow> P (twilioSocket_onclose (s\<lparr>twilioSocket := CLOSED\<rparr>))"
    and "elevenlabsSocket s = Some CONNECTING \<Longrightarrow>
           P (mb_elevenlabsSocket_onopen env (s\<lparr>elevenlabsSocket := Some OPEN\<rparr>))"
    and "\<And>data. P (mb_elevenlabsSocket_onmessage data s)"
    and "elevenlabsSocket s \<noteq> None \<Longrightarrow> elevenlabsSocket s \<noteq> Some CLOSED \<Longrightarrow>
           P (elevenlabsSocket_onclose (s\<lparr>elevenlabsSocket := Some CLOSED\<rparr>))"
  shows "P s'"
  using assms by (cases e) (auto split: if_splits)

lemma lifecycle_inv_mb_init: "lifecycle_inv mb_init"
  by (simp add: lifecycle_inv_def mb_init_def)

lemma lifecycle_inv_TwilioOpen:
  "lifecycle_inv s \<Longrightarrow> twilioSocket s = CONNECTING \<Longrightarrow>
   lifecycle_inv (s\<lparr>twilioSocket := OPEN, awaiting_fetch := True\<rparr>)"
  by (auto simp: lifecycle_inv_def)

lemma lifecycle_inv_resume:
  "lifecycle_inv s \<Longrightarrow> awaiting_fetch s \<Longrightarrow>
   lifecycle_inv (twilioSocket_onopen_resume r (s\<lparr>awaiting_fetch := False\<rparr>))"
  by (cases r; cases "twilioSocket s") (auto simp: lifecycle_inv_def send_close_defs)

lemma lifecycle_inv_twilioSocket_onclose:
  "lifecycle_inv s \<Longrightarrow> twilioSocket s \<noteq> CLOSED \<Longrightarrow>
   lifecycle_inv (twilioSocket_onclose (s\<lparr>twilioSocket := CLOSED\<rparr>))"
  by (auto simp: lifecycle_inv_def twilioSocket_onclose_def send_close_defs)

lemma lifecycle_inv_elevenlabsSocket_onclose:
  "lifecycle_inv s \<Longrightarrow> elevenlabsSocket s \<noteq> None \<Longrightarrow>
   lifecycle_inv (elevenlabsSocket_onclose (s\<lparr>elevenlabsSocket := Some CLOSED\<rparr>))"
  by (cases "twilioSocket s")
     (auto simp: lifecycle_inv_def elevenlabsSocket_onclose_def send_close_defs)

lemma lifecycle_inv_branch_start: "lifecycle_inv s \<Longrightarrow> lifecycle_inv (branch_start m s)"
  by (auto simp: lifecycle_inv_def branch_start_def split: option.splits)

lemma lifecycle_inv_branch_stop: "lifecycle_inv s \<Longrightarrow> lifecycle_inv (branch_stop s)"
  by (auto simp: lifecycle_inv_def branch_stop_def send_close_defs)

lemma lifecycle_inv_mb_branch_media:
  "lifecycle_inv s \<Longrightarrow> lifecycle_inv (mb_branch_media m s)"
  by (auto simp: lifecycle_inv_def mb_branch_media_def send_close_defs split: option.splits)

lemma lifecycle_inv_mb_case_audio: "lifecycle_inv s \<Longrightarrow> lifecycle_inv (mb_case_audio m s)"
  by (auto simp: lifecycle_inv_def mb_case_audio_def Let_def send_close_defs)

lemma lifecycle_inv_mb_case_interruption:
  "lifecycle_inv s \<Longrightarrow> lifecycle_inv (mb_case_interruption s)"
  by (auto simp: lifecycle_inv_def mb_case_interruption_def send_close_defs)

lemma lifecycle_inv_mb_case_ping: "lifecycle_inv s \<Longrightarrow> lifecycle_inv (mb_case_ping m s)"
  by (auto simp: lifecycle_inv_def mb_case_ping_def send_close_defs)

lemma lifecycle_inv_mb_elevenlabsSocket_onopen:
  "lifecycle_inv s \<Longrightarrow> elevenlabsSocket s = Some CONNECTING \<Longrightarrow>
   lifecycle_inv (mb_elevenlabsSocket_onopen env (s\<lparr>elevenlabsSocket := Some OPEN\<rparr>))"
  by (auto simp: lifecycle_inv_def mb_elevenlabsSocket_onopen_def send_close_defs
      split: option.splits)

lemma lifecycle_inv_mb_fire:
  assumes "lifecycle_inv s" and "mb_fire env e s = Some s'"
  shows "lifecycle_inv s'"
proof (rule mb_fire_cases [OF assms(2), where P = lifecycle_inv])
  fix parsed
  show "lifecycle_inv (mb_twilioSocket_onmessage parsed s)"
    by (rule mb_twilioSocket_onmessage_cases)
       (simp_all add: assms(1) lifecycle_inv_branch_start lifecycle_inv_mb_branch_media
          lifecycle_inv_branch_stop)
next
  fix data
  show "lifecycle_inv (mb_elevenlabsSocket_onmessage data s)"
    by (rule mb_elevenlabsSocket_onmessage_cases)
       (simp_all add: assms(1) lifecycle_inv_mb_case_audio lifecycle_inv_mb_case_interruption
          lifecycle_inv_mb_case_ping)
qed (simp_all add: assms(1) lifecycle_inv_TwilioOpen lifecycle_inv_resume
       lifecycle_inv_twilioSocket_onclose lifecycle_inv_elevenlabsSocket_onclose
       lifecycle_inv_mb_elevenlabsSocket_onopen)

lemma lifecycle_inv_mb_run:
  "lifecycle_inv s \<Longrightarrow> mb_run env es s = Some s' \<Longrightarrow> lifecycle_inv s'"
proof (induction es arbitrary: s)
  case Nil
  then show ?case by simp
next
  case (Cons e es)
  then obtain s1 where f: "mb_fire env e s = Some s1" and r: "mb_run env es s1 = Some s'"
    by (auto split: option.splits)
  from Cons.IH [OF lifecycle_inv_mb_fire [OF Cons.prems(1) f] r] show ?case .
qed

lemma call_failed_branches:
  "call_failed s \<Longrightarrow> call_failed (branch_start m s)"
  "call_failed s \<Longrightarrow> call_failed (branch_stop s)"
  "call_failed s \<Longrightarrow> call_failed (mb_branch_media m s)"
  by (simp_all add: call_failed_def branch_start_def branch_stop_def mb_branch_media_def
      split: option.splits)

lemma call_failed_mb_twilioSocket_onmessage:
  "call_failed s \<Longrightarrow> call_failed (mb_twilioSocket_onmessage parsed s)"
  by (rule mb_twilioSocket_onmessage_cases [where P = call_failed])
     (simp_all add: call_failed_branches)

lemma call_failed_mb_fire:
  assumes "call_failed s" and "mb_fire env e s = Some s'"
  shows "call_failed s'"
  using assms
  by (cases e)
     (auto simp: call_failed_mb_twilioSocket_onmessage split: if_splits,
      auto simp: call_failed_def twilioSocket_onclose_def)

lemma call_failed_mb_run:
  "call_failed s \<Longrightarrow> mb_run env es s = Some s' \<Longrightarrow> call_failed s'"
proof (induction es arbitrary: s)
  case Nil
  then show ?case by simp
next
  case (Cons e es)
  then obtain s1 where f: "mb_fire env e s = Some s1" and r: "mb_run env es s1 = Some s'"
    by (auto split: option.splits)
  from Cons.IH [OF call_failed_mb_fire [OF Cons.prems(1) f] r] show ?case .
qed

lemma call_failed_resume_NotOk:
  "lifecycle_inv s \<Longrightarrow> awaiting_fetch s \<Longrightarrow>
   call_failed (twilioSocket_onopen_resume NotOk (s\<lparr>awaiting_fetch := False\<rparr>))"
  by (cases "twilioSocket s") (auto simp: lifecycle_inv_def call_failed_def send_close_defs)

lemma mb_failed_credential_exchange:
  assumes run: "mb_run env es mb_init = Some s"
    and fail: "mb_fire env (FetchDone NotOk) s = Some s'"
    and later: "mb_run env es' s' = Some s''"
  shows "twilio_close_calls s' = Suc (twilio_close_calls s) \<and> twilioSocket s' \<noteq> OPEN \<and>
         twilioSocket s'' \<noteq> OPEN \<and> elevenlabsSocket s'' = None \<and>
         \<not> elevenlabsReady s'' \<and> elevenlabs_sent s'' = []"
proof -
  have inv: "lifecycle_inv s"
    using lifecycle_inv_mb_run [OF lifecycle_inv_mb_init run] .
  from fail have aw: "awaiting_fetch s"
    and s': "s' = twilioSocket_onopen_resume NotOk (s\<lparr>awaiting_fetch := False\<rparr>)"
    by (auto split: if_splits)
  have cf: "call_failed s'"
    unfolding s' using inv aw by (rule call_failed_resume_NotOk)
  have cf': "call_failed s''"
    using cf later by (rule call_failed_mb_run)
  have "twilio_close_calls s' = Suc (twilio_close_calls s)"
    by (simp add: s' twilio_close_def)
  with cf cf' show ?thesis by (auto simp: call_failed_def)
qed

subsection \<open>The session identifier\<close>

lemma streamSid_send_close [simp]:
  "streamSid (twilio_send f s) = streamSid s"
  "streamSid (elevenlabs_send f s) = streamSid s"
  "streamSid (twilio_close s) = streamSid s"
  "streamSid (elevenlabs_close s) = streamSid s"
  by (simp_all add: send_close_defs)

lemma mb_twilioSocket_onmessage_streamSid:
  "streamSid (mb_twilioSocket_onmessage parsed s) =
     (case start_sid (TwilioMessage parsed) of None \<Rightarrow> streamSid s | Some v \<Rightarrow> v)"
  by (cases parsed)
     (auto simp: mb_twilioSocket_onmessage_def branch_start_def mb_branch_media_def
        branch_stop_def split: option.splits)

lemma mb_elevenlabsSocket_onmessage_streamSid:
  "streamSid (mb_elevenlabsSocket_onmessage data s) = streamSid s"
  by (rule mb_elevenlabsSocket_onmessage_cases)
     (simp_all add: mb_case_audio_def mb_case_interruption_def mb_case_ping_def Let_def)

lemma twilioSocket_onopen_resume_streamSid:
  "streamSid (twilioSocket_onopen_resume r s) = streamSid s"
  by (cases r) simp_all

lemma mb_elevenlabsSocket_onopen_streamSid:
  "streamSid (mb_elevenlabsSocket_onopen env s) = streamSid s"
  by (simp add: mb_elevenlabsSocket_onopen_def split: option.splits)

lemma onclose_streamSid:
  "streamSid (twilioSocket_onclose s) = streamSid s"
  "streamSid (elevenlabsSocket_onclose s) = streamSid s"
  by (simp_all add: twilioSocket_onclose_def elevenlabsSocket_onclose_def)

lemma mb_fire_streamSid:
  "mb_fire env e s = Some s' \<Longrightarrow>
   streamSid s' = (case start_sid e of None \<Rightarrow> streamSid s | Some v \<Rightarrow> v)"
  by (cases e)
     (auto simp: mb_twilioSocket_onmessage_streamSid mb_elevenlabsSocket_onmessage_streamSid
        twilioSocket_onopen_resume_streamSid mb_elevenlabsSocket_onopen_streamSid
        onclose_streamSid
      split: if_splits)

lemma mb_run_streamSid:
  "mb_run env es s = Some s' \<Longrightarrow> streamSid s' = sid_after (streamSid s) es"
proof (induction es arbitrary: s)
  case Nil
  then show ?case by simp
next
  case (Cons e es)
  then obtain s1 where f: "mb_fire env e s = Some s1" and r: "mb_run env es s1 = Some s'"
    by (auto split: option.splits)
  from Cons.IH [OF r] mb_fire_streamSid [OF f] show ?case by simp
qed

subsection \<open>Frames to the caller\<close>

lemma emits_tagged_same: "twilio_sent s' = twilio_sent s \<Longrightarrow> emits_tagged s s'"
  by (simp add: emits_tagged_def)

lemma twilio_sent_send_close [simp]:
  "twilio_sent (elevenlabs_send f s) = twilio_sent s"
  "twilio_sent (twilio_close s) = twilio_sent s"
  "twilio_sent (elevenlabs_close s) = twilio_sent s"
  by (simp_all add: send_close_defs)

lemma mb_elevenlabsSocket_onmessage_emits:
  "emits_tagged s (mb_elevenlabsSocket_onmessage data s)"
  by (rule mb_elevenlabsSocket_onmessage_cases)
     (auto simp: emits_tagged_def mb_case_audio_def mb_case_interruption_def mb_case_ping_def
        Let_def twilio_send_def dest: truthy_not_undefined)

lemma mb_twilioSocket_onmessage_twilio_sent:
  "twilio_sent (mb_twilioSocket_onmessage parsed s) = twilio_sent s"
  by (rule mb_twilioSocket_onmessage_cases)
     (simp_all add: branch_start_def mb_branch_media_def branch_stop_def split: option.splits)

lemma mb_fire_emits:
  assumes "mb_fire env e s = Some s'"
  shows "emits_tagged s s'"
proof (rule mb_fire_cases [OF assms, where P = "emits_tagged s"])
  fix data
  show "emits_tagged s (mb_elevenlabsSocket_onmessage data s)"
    by (rule mb_elevenlabsSocket_onmessage_emits)
next
  fix r
  show "emits_tagged s (twilioSocket_onopen_resume r (s\<lparr>awaiting_fetch := False\<rparr>))"
    by (cases r) (simp_all add: emits_tagged_same)
qed (simp_all add: emits_tagged_same mb_twilioSocket_onmessage_twilio_sent
       twilioSocket_onclose_def elevenlabsSocket_onclose_def mb_elevenlabsSocket_onopen_def
       split: option.splits)

section \<open>Properties of the variant with a pending-audio queue\<close>

lemma p1_send_buffered_eq:
  "p1_send_buffered s =
     s\<lparr>elevenlabs_sent :=
         elevenlabs_sent s @
           (if elevenlabsSocket s = Some OPEN then map BinaryFrame (audioBuffer s) else []),
       audioBuffer := []\<rparr>"
proof (induction s rule: p1_send_buffered.induct)
  case (1 s)
  show ?case
  proof (cases "audioBuffer s")
    case Nil
    then show ?thesis by (subst p1_send_buffered.simps) simp
  next
    case (Cons b rest)
    with 1 show ?thesis
      by (subst p1_send_buffered.simps) (simp add: elevenlabs_send_def)
  qed
qed

lemma p1_elevenlabsSocket_onopen_eq:
  "elevenlabsSocket s = Some OPEN \<Longrightarrow>
   p1_elevenlabsSocket_onopen env s =
     s\<lparr>elevenlabs_sent :=
         elevenlabs_sent s @ TextFrame (p1_initMessage env) # map BinaryFrame (audioBuffer s),
       elevenlabsReady := True, audioBuffer := []\<rparr>"
  by (simp add: p1_elevenlabsSocket_onopen_def p1_send_buffered_eq elevenlabs_send_def)

lemma p1_twilioSocket_onmessage_cases:
  assumes "P s" "\<And>m. P (branch_start m s)" "\<And>m. P (p1_branch_media env m s)"
    "P (branch_stop s)"
  shows "P (p1_twilioSocket_onmessage env parsed s)"
  by (simp add: p1_twilioSocket_onmessage_def assms split: option.splits)

lemma p1_fire_cases:
  assumes "p1_fire env e s = Some s'"
    and "twilioSocket s = CONNECTING \<Longrightarrow> P (s\<lparr>twilioSocket := OPEN, awaiting_fetch := True\<rparr>)"
    and "\<And>r. awaiting_fetch s \<Longrightarrow> P (twilioSocket_onopen_resume r (s\<lparr>awaiting_fetch := False\<rparr>))"
    and "\<And>parsed. P (p1_twilioSocket_onmessage env parsed s)"
    and "P s"
    and "twilioSocket s \<noteq> CLOSED \<Longrightarrow> P (twilioSocket_onclose (s\<lparr>twilioSocket := CLOSED\<rparr>))"
    and "elevenlabsSocket s = Some CONNECTING \<Longrightarrow>
           P (p1_elevenlabsSocket_onopen env (s\<lparr>elevenlabsSocket := Some OPEN\<rparr>))"
    and "\<And>data. P (p1_elevenlabsSocket_onmessage data s)"
    and "elevenlabsSocket s \<noteq> None \<Longrightarrow> elevenlabsSocket s \<noteq> Some CLOSED \<Longrightarrow>
           P (elevenlabsSocket_onclose (s\<lparr>elevenlabsSocket := Some CLOSED\<rparr>))"
    and "\<And>b. b \<in> set (blob_reads s) \<Longrightarrow>
           P (p1_blob_callback env b (s\<lparr>blob_reads := remove1 b (blob_reads s)\<rparr>))"
  shows "P s'"
  using assms by (cases e) (auto split: if_splits)

lemma lifecycle_inv_p1_init: "lifecycle_inv p1_init"
  by (simp add: lifecycle_inv_def p1_init_def)

lemma lifecycle_inv_p1_branch_media:
  "lifecycle_inv s \<Longrightarrow> lifecycle_inv (p1_branch_media env m s)"
  by (auto simp: lifecycle_inv_def p1_branch_media_def send_close_defs split: option.splits)

lemma lifecycle_inv_p1_elevenlabsSocket_onopen:
  "lifecycle_inv s \<Longrightarrow> elevenlabsSocket s = Some CONNECTING \<Longrightarrow>
   lifecycle_inv (p1_elevenlabsSocket_onopen env (s\<lparr>elevenlabsSocket := Some OPEN\<rparr>))"
  by (auto simp: lifecycle_inv_def p1_elevenlabsSocket_onopen_eq)

lemma lifecycle_inv_p1_elevenlabsSocket_onmessage:
  "lifecycle_inv s \<Longrightarrow> lifecycle_inv (p1_elevenlabsSocket_onmessage data s)"
  by (cases data) (auto simp: lifecycle_inv_def)

lemma lifecycle_inv_p1_blob_callback:
  "lifecycle_inv s \<Longrightarrow>
   lifecycle_inv (p1_blob_callback env b (s\<lparr>blob_reads := remove1 b (blob_reads s)\<rparr>))"
  by (auto simp: lifecycle_inv_def p1_blob_callback_eq send_close_defs)

lemma lifecycle_inv_p1_fire:
  assumes "lifecycle_inv s" and "p1_fire env e s = Some s'"
  shows "lifecycle_inv s'"
proof (rule p1_fire_cases [OF assms(2), where P = lifecycle_inv])
  fix parsed
  show "lifecycle_inv (p1_twilioSocket_onmessage env parsed s)"
    by (rule p1_twilioSocket_onmessage_cases)
       (simp_all add: assms(1) lifecycle_inv_branch_start lifecycle_inv_p1_branch_media
          lifecycle_inv_branch_stop)
qed (simp_all add: assms(1) lifecycle_inv_TwilioOpen lifecycle_inv_resume
       lifecycle_inv_twilioSocket_onclose lifecycle_inv_elevenlabsSocket_onclose
       lifecycle_inv_p1_elevenlabsSocket_onopen lifecycle_inv_p1_elevenlabsSocket_onmessage
       lifecycle_inv_p1_blob_callback)

lemma lifecycle_inv_p1_run:
  "lifecycle_inv s \<Longrightarrow> p1_run env es s = Some s' \<Longrightarrow> lifecycle_inv s'"
proof (induction es arbitrary: s)
  case Nil
  then show ?case by simp
next
  case (Cons e es)
  then obtain s1 where f: "p1_fire env e s = Some s1" and r: "p1_run env es s1 = Some s'"
    by (auto split: option.splits)
  from Cons.IH [OF lifecycle_inv_p1_fire [OF Cons.prems(1) f] r] show ?case .
qed

lemma call_failed_p1_branch_media:
  "call_failed s \<Longrightarrow> call_failed (p1_branch_media env m s)"
  by (simp add: call_failed_def p1_branch_media_def split: option.splits)

lemma call_failed_p1_twilioSocket_onmessage:
  "call_failed s \<Longrightarrow> call_failed (p1_twilioSocket_onmessage env parsed s)"
  by (rule p1_twilioSocket_onmessage_cases [where P = call_failed])
     (simp_all add: call_failed_branches call_failed_p1_branch_media)

lemma call_failed_p1_fire:
  assumes "call_failed s" and "p1_fire env e s = Some s'"
  shows "call_failed s'"
  using assms
  by (cases e)
     (auto simp: call_failed_p1_twilioSocket_onmessage split: if_splits,
      auto simp: call_failed_def twilioSocket_onclose_def p1_blob_callback_eq
        twilio_send_def)

lemma call_failed_p1_run:
  "call_failed s \<Longrightarrow> p1_run env es s = Some s' \<Longrightarrow> call_failed s'"
proof (induction es arbitrary: s)
  case Nil
  then show ?case by simp
next
  case (Cons e es)
  then obtain s1 where f: "p1_fire env e s = Some s1" and r: "p1_run env es s1 = Some s'"
    by (auto split: option.splits)
  from Cons.IH [OF call_failed_p1_fire [OF Cons.prems(1) f] r] show ?case .
qed

lemma p1_failed_credential_exchange:
  assumes run: "p1_run env es p1_init = Some s"
    and fail: "p1_fire env (FetchDone NotOk) s = Some s'"
    and later: "p1_run env es' s' = Some s''"
  shows "twilio_close_calls s' = Suc (twilio_close_calls s) \<and> twilioSocket s' \<noteq> OPEN \<and>
         twilioSocket s'' \<noteq> OPEN \<and> elevenlabsSocket s'' = None \<and>
         \<not> elevenlabsReady s'' \<and> elevenlabs_sent s'' = []"
proof -
  have inv: "lifecycle_inv s"
    using lifecycle_inv_p1_run [OF lifecycle_inv_p1_init run] .
  from fail have aw: "awaiting_fetch s"
    and s': "s' = twilioSocket_onopen_resume NotOk (s\<lparr>awaiting_fetch := False\<rparr>)"
    by (auto split: if_splits)
  have cf: "call_failed s'"
    unfolding s' using inv aw by (rule call_failed_resume_NotOk)
  have cf': "call_failed s''"
    using cf later by (rule call_failed_p1_run)
  have "twilio_close_calls s' = Suc (twilio_close_calls s)"
    by (simp add: s' twilio_close_def)
  with cf cf' show ?thesis by (auto simp: call_failed_def)
qed

lemma p1_twilioSocket_onmessage_streamSid:
  "streamSid (p1_twilioSocket_onmessage env parsed s) =
     (case start_sid (TwilioMessage parsed) of None \<Rightarrow> streamSid s | Some v \<Rightarrow> v)"
  by (cases parsed)
     (auto simp: p1_twilioSocket_onmessage_def branch_start_def p1_branch_media_def
        branch_stop_def split: option.splits)

lemma p1_elevenlabsSocket_onmessage_streamSid:
  "streamSid (p1_elevenlabsSocket_onmessage data s) = streamSid s"
  by (cases data) simp_all

lemma p1_fire_streamSid:
  "p1_fire env e s = Some s' \<Longrightarrow>
   streamSid s' = (case start_sid e of None \<Rightarrow> streamSid s | Some v \<Rightarrow> v)"
  by (cases e)
     (auto simp: p1_twilioSocket_onmessage_streamSid twilioSocket_onopen_resume_streamSid
        onclose_streamSid p1_elevenlabsSocket_onopen_eq p1_blob_callback_eq
        p1_elevenlabsSocket_onmessage_streamSid
      split: if_splits)

lemma p1_run_streamSid:
  "p1_run env es s = Some s' \<Longrightarrow> streamSid s' = sid_after (streamSid s) es"
proof (induction es arbitrary: s)
  case Nil
  then show ?case by simp
next
  case (Cons e es)
  then obtain s1 where f: "p1_fire env e s = Some s1" and r: "p1_run env es s1 = Some s'"
    by (auto split: option.splits)
  from Cons.IH [OF r] p1_fire_streamSid [OF f] show ?case by simp
qed



subsection \<open>No frame without a recorded session identifier\<close>

lemma sid_after_no_start:
  "\<forall>e \<in> set es. start_sid e = None \<Longrightarrow> sid_after sid es = sid"
  by (induction es arbitrary: sid) simp_all



subsection \<open>The caller log only grows\<close>

lemma mb_run_twilio_sent_grows:
  "mb_run env es s = Some s' \<Longrightarrow> \<exists>later. twilio_sent s' = twilio_sent s @ later"
proof (induction es arbitrary: s)
  case Nil
  then show ?case by simp
next
  case (Cons e es)
  then obtain s1 where f: "mb_fire env e s = Some s1" and r: "mb_run env es s1 = Some s'"
    by (auto split: option.splits)
  from mb_fire_emits [OF f] obtain l1 where "twilio_sent s1 = twilio_sent s @ l1"
    by (auto simp: emits_tagged_def)
  moreover from Cons.IH [OF r] obtain l2 where "twilio_sent s' = twilio_sent s1 @ l2" ..
  ultimately show ?case by simp
qed

subsection \<open>The queue before the agent leg is ready\<close>

lemma p1_fire_before_ready:
  assumes "p1_fire env e s = Some s'" and "\<not> elevenlabsReady s'"
  shows "\<not> elevenlabsReady s \<and> elevenlabs_sent s' = elevenlabs_sent s \<and>
         audioBuffer s' = audioBuffer s @ (case media_audio env e of None \<Rightarrow> [] | Some b \<Rightarrow> [b])"
proof (cases e)
  case (TwilioMessage parsed)
  with assms show ?thesis
    by (cases parsed)
       (auto simp: p1_twilioSocket_onmessage_def branch_start_def p1_branch_media_def
          branch_stop_def send_close_defs split: if_splits option.splits)
next
  case (FetchDone r)
  with assms show ?thesis by (cases r) (auto simp: send_close_defs split: if_splits)
next
  case (ElevenlabsMessage data)
  with assms show ?thesis by (cases data) (auto split: if_splits)
next
  case (BlobRead b)
  with assms show ?thesis
    by (auto simp: p1_blob_callback_eq send_close_defs split: if_splits)
qed (use assms in \<open>auto simp: twilioSocket_onclose_def elevenlabsSocket_onclose_def
       send_close_defs p1_elevenlabsSocket_onopen_eq split: if_splits\<close>)

lemma media_payloads_Cons:
  "media_payloads env (e # es) =
     (case media_audio env e of None \<Rightarrow> [] | Some b \<Rightarrow> [b]) @ media_payloads env es"
  by (simp add: media_payloads_def List.map_filter_simps split: option.splits)

lemma p1_run_before_ready:
  "p1_run env es s = Some s' \<Longrightarrow> \<not> elevenlabsReady s' \<Longrightarrow>
   elevenlabs_sent s' = elevenlabs_sent s \<and>
   audioBuffer s' = audioBuffer s @ media_payloads env es"
proof (induction es arbitrary: s)
  case Nil
  then show ?case by (simp add: media_payloads_def List.map_filter_simps)
next
  case (Cons e es)
  then obtain s1 where f: "p1_fire env e s = Some s1" and r: "p1_run env es s1 = Some s'"
    by (auto split: option.splits)
  from Cons.IH [OF r Cons.prems(2)]
  have 1: "elevenlabs_sent s' = elevenlabs_sent s1"
    and 2: "audioBuffer s' = audioBuffer s1 @ media_payloads env es" by simp_all
  have "\<not> elevenlabsReady s1"
  proof
    assume rdy: "elevenlabsReady s1"
    have "\<And>t t'. p1_run env es t = Some t' \<Longrightarrow> elevenlabsReady t \<Longrightarrow> elevenlabsReady t'"
    proof (induction es)
      case Nil
      then show ?case by simp
    next
      case (Cons x xs)
      from Cons.prems obtain t1 where f1: "p1_fire env x t = Some t1"
        and r1: "p1_run env xs t1 = Some t'" by (auto split: option.splits)
      from p1_fire_before_ready [OF f1] Cons.prems(2) have "elevenlabsReady t1" by blast
      with Cons.IH [OF r1] show ?case .
    qed
    from this [OF r rdy] Cons.prems(2) show False by simp
  qed
  from p1_fire_before_ready [OF f this] 1 2 show ?case
    by (simp add: media_payloads_Cons)
qed

lemma p1_buffered_media_forwarded:
  assumes run: "p1_run env es p1_init = Some s"
    and opened: "p1_fire env ElevenlabsOpen s = Some s'"
  shows "elevenlabs_sent s' =
           TextFrame (p1_initMessage env) # map BinaryFrame (media_payloads env es) \<and>
         audioBuffer s' = [] \<and> elevenlabsReady s'"
proof -
  from opened have conn: "elevenlabsSocket s = Some CONNECTING"
    and s': "s' = p1_elevenlabsSocket_onopen env (s\<lparr>elevenlabsSocket := Some OPEN\<rparr>)"
    by (auto split: if_splits)
  have "lifecycle_inv s"
    using lifecycle_inv_p1_run [OF lifecycle_inv_p1_init run] .
  with conn have nr: "\<not> elevenlabsReady s" by (simp add: lifecycle_inv_def)
  from p1_run_before_ready [OF run nr]
  have "elevenlabs_sent s = []" "audioBuffer s = media_payloads env es"
    by (simp_all add: p1_init_def)
  then show ?thesis by (simp add: s' p1_elevenlabsSocket_onopen_eq)
qed

lemmas handler_defs = mb_twilioSocket_onmessage_def mb_elevenlabsSocket_onmessage_def
  mb_elevenlabsSocket_onopen_def branch_start_def mb_branch_media_def branch_stop_def
  mb_case_audio_def mb_case_interruption_def mb_case_ping_def twilioSocket_onclose_def
  elevenlabsSocket_onclose_def p1_twilioSocket_onmessage_def p1_branch_media_def
  p1_elevenlabsSocket_onopen_eq p1_blob_callback_eq send_close_defs js_get_def js_get_opt_def
  js_or_def media_frame_def clear_frame_def pong_frame_def String_fromCharCode_def Let_def

section \<open>Properties of the variant that queues the Base64 payloads\<close>

lemma p0_twilioSocket_onmessage_cases:
  assumes "P s" "\<And>m. P (branch_start m s)"
    "\<And>m. truthy (js_get_opt (js_field m ''media'') ''payload'') \<Longrightarrow> P (p0_branch_media env m s)"
    "P (p0_close_agent s)"
  shows "P (p0_twilioSocket_onmessage env parsed s)"
  by (simp add: p0_twilioSocket_onmessage_def assms split: option.splits)

lemma p0_fire_cases:
  assumes "p0_fire env e s = Some s'"
    and "twilioSocket s = CONNECTING \<Longrightarrow> P (s\<lparr>twilioSocket := OPEN, awaiting_fetch := True\<rparr>)"
    and "\<And>r. awaiting_fetch s \<Longrightarrow> P (twilioSocket_onopen_resume r (s\<lparr>awaiting_fetch := False\<rparr>))"
    and "\<And>parsed. P (p0_twilioSocket_onmessage env parsed s)"
    and "P s"
    and "twilioSocket s \<noteq> CLOSED \<Longrightarrow> P (p0_close_agent (s\<lparr>twilioSocket := CLOSED\<rparr>))"
    and "elevenlabsSocket s = Some CONNECTING \<Longrightarrow>
           P (p0_elevenlabsSocket_onopen env (s\<lparr>elevenlabsSocket := Some OPEN\<rparr>))"
    and "\<And>data. P (p0_elevenlabsSocket_onmessage data s)"
    and "elevenlabsSocket s \<noteq> None \<Longrightarrow> elevenlabsSocket s \<noteq> Some CLOSED \<Longrightarrow>
           P (p0_elevenlabsSocket_onerror s)"
    and "elevenlabsSocket s \<noteq> None \<Longrightarrow> elevenlabsSocket s \<noteq> Some CLOSED \<Longrightarrow>
           P (elevenlabsSocket_onclose (s\<lparr>elevenlabsSocket := Some CLOSED\<rparr>))"
    and "\<And>b. b \<in> set (p0_blob_reads s) \<Longrightarrow>
           P (p0_blob_callback env b (s\<lparr>p0_blob_reads := remove1 b (p0_blob_reads s)\<rparr>))"
  shows "P s'"
  using assms by (cases e) (auto split: if_splits)

lemma p0_forEach_eq:
  "\<forall>b \<in> set bs. atob_value env b \<noteq> None \<Longrightarrow> elevenlabsSocket s = Some OPEN \<Longrightarrow>
   p0_forEach env bs s =
     (True, s\<lparr>elevenlabs_sent :=
                elevenlabs_sent s @ map BinaryFrame (List.map_filter (atob_value env) bs)\<rparr>)"
proof (induction bs arbitrary: s)
  case Nil
  then show ?case by (simp add: List.map_filter_simps)
next
  case (Cons b bs)
  from Cons.prems obtain d where d: "atob_value env b = Some d" by auto
  have "elevenlabsSocket (elevenlabs_send (BinaryFrame d) s) = Some OPEN"
    using Cons.prems(2) by (simp add: elevenlabs_send_def)
  with Cons.IH [of "elevenlabs_send (BinaryFrame d) s"] Cons.prems d show ?case
    by (simp add: List.map_filter_simps elevenlabs_send_def)
qed

lemma p0_elevenlabsSocket_onopen_eq:
  "\<forall>b \<in> set (p0_audioBuffer s). atob_value env b \<noteq> None \<Longrightarrow>
   elevenlabsSocket s = Some OPEN \<Longrightarrow>
   p0_elevenlabsSocket_onopen env s =
     s\<lparr>elevenlabsReady := True,
       elevenlabs_sent :=
         elevenlabs_sent s @ TextFrame (p0_sessionConfig env) #
           map BinaryFrame (List.map_filter (atob_value env) (p0_audioBuffer s)),
       p0_audioBuffer := []\<rparr>"
  by (simp add: p0_elevenlabsSocket_onopen_def p0_forEach_eq elevenlabs_send_def)

lemma p0_inv_init: "p0_inv env p0_init"
  by (simp add: p0_inv_def p0_init_def)

lemma p0_inv_resume:
  "p0_inv env s \<Longrightarrow> awaiting_fetch s \<Longrightarrow>
   p0_inv env (twilioSocket_onopen_resume r (s\<lparr>awaiting_fetch := False\<rparr>))"
  by (cases r; cases "twilioSocket s") (auto simp: p0_inv_def send_close_defs)

lemma p0_inv_branch_start: "p0_inv env s \<Longrightarrow> p0_inv env (branch_start m s)"
  by (auto simp: p0_inv_def branch_start_def split: option.splits)

lemma p0_inv_branch_media: "p0_inv env s \<Longrightarrow> p0_inv env (p0_branch_media env m s)"
  by (auto simp: p0_inv_def p0_branch_media_def send_close_defs split: option.splits)

lemma ws_close_not_CONNECTING [simp]: "ws_close r \<noteq> CONNECTING"
  by (cases r) simp_all

lemma p0_inv_close_agent:
  "p0_inv env s \<Longrightarrow> p0_inv env (p0_close_agent s)"
  by (cases "elevenlabsSocket s")
     (simp_all add: p0_inv_def p0_close_agent_def send_close_defs)

lemma p0_inv_close_agent_closed:
  "p0_inv env s \<Longrightarrow> p0_inv env (p0_close_agent (s\<lparr>twilioSocket := CLOSED\<rparr>))"
  by (cases "elevenlabsSocket s")
     (simp_all add: p0_inv_def p0_close_agent_def send_close_defs)

lemma p0_inv_onopen:
  "p0_inv env s \<Longrightarrow> elevenlabsSocket s = Some CONNECTING \<Longrightarrow>
   p0_inv env (p0_elevenlabsSocket_onopen env (s\<lparr>elevenlabsSocket := Some OPEN\<rparr>))"
proof -
  assume inv: "p0_inv env s" and conn: "elevenlabsSocket s = Some CONNECTING"
  then have "p0_elevenlabsSocket_onopen env (s\<lparr>elevenlabsSocket := Some OPEN\<rparr>) =
     s\<lparr>elevenlabsSocket := Some OPEN, elevenlabsReady := True,
       elevenlabs_sent :=
         elevenlabs_sent s @ TextFrame (p0_sessionConfig env) #
           map BinaryFrame (List.map_filter (atob_value env) (p0_audioBuffer s)),
       p0_audioBuffer := []\<rparr>"
    by (subst p0_elevenlabsSocket_onopen_eq) (simp_all add: p0_inv_def)
  with inv conn show ?thesis by (simp add: p0_inv_def)
qed

lemma p0_inv_onmessage: "p0_inv env s \<Longrightarrow> p0_inv env (p0_elevenlabsSocket_onmessage data s)"
  by (cases data) (auto simp: p0_inv_def)

lemma p0_inv_onerror:
  "p0_inv env s \<Longrightarrow> elevenlabsSocket s \<noteq> None \<Longrightarrow> p0_inv env (p0_elevenlabsSocket_onerror s)"
  by (cases "twilioSocket s") (auto simp: p0_inv_def p0_elevenlabsSocket_onerror_def send_close_defs)

lemma p0_inv_onclose:
  "p0_inv env s \<Longrightarrow> elevenlabsSocket s \<noteq> None \<Longrightarrow>
   p0_inv env (elevenlabsSocket_onclose (s\<lparr>elevenlabsSocket := Some CLOSED\<rparr>))"
  by (cases "twilioSocket s") (auto simp: p0_inv_def elevenlabsSocket_onclose_def send_close_defs)

lemma p0_inv_blob_callback:
  "p0_inv env s \<Longrightarrow>
   p0_inv env (p0_blob_callback env b (s\<lparr>p0_blob_reads := remove1 b (p0_blob_reads s)\<rparr>))"
  by (auto simp: p0_inv_def p0_blob_callback_eq send_close_defs)

lemma p0_inv_fire:
  assumes "p0_inv env s" and "p0_fire env e s = Some s'"
  shows "p0_inv env s'"
proof (rule p0_fire_cases [OF assms(2), where P = "p0_inv env"])
  fix parsed
  show "p0_inv env (p0_twilioSocket_onmessage env parsed s)"
    by (rule p0_twilioSocket_onmessage_cases [where P = "p0_inv env"])
       (simp_all add: assms(1) p0_inv_branch_start p0_inv_branch_media p0_inv_close_agent)
next
  assume "twilioSocket s = CONNECTING"
  with assms(1) show "p0_inv env (s\<lparr>twilioSocket := OPEN, awaiting_fetch := True\<rparr>)"
    by (auto simp: p0_inv_def)
qed (simp_all add: assms(1) p0_inv_resume p0_inv_close_agent_closed p0_inv_onopen
       p0_inv_onmessage p0_inv_onerror p0_inv_onclose p0_inv_blob_callback)

lemma p0_inv_run:
  "p0_inv env s \<Longrightarrow> p0_run env es s = Some s' \<Longrightarrow> p0_inv env s'"
proof (induction es arbitrary: s)
  case Nil
  then show ?case by simp
next
  case (Cons e es)
  then obtain s1 where f: "p0_fire env e s = Some s1" and r: "p0_run env es s1 = Some s'"
    by (auto split: option.splits)
  from Cons.IH [OF p0_inv_fire [OF Cons.prems(1) f] r] show ?case .
qed

lemma call_failed_p0_branches:
  "call_failed s \<Longrightarrow> call_failed (p0_branch_media env m s)"
  "call_failed s \<Longrightarrow> call_failed (p0_close_agent s)"
  by (simp_all add: call_failed_def p0_branch_media_def p0_close_agent_def
      split: option.splits)

lemma call_failed_p0_twilioSocket_onmessage:
  "call_failed s \<Longrightarrow> call_failed (p0_twilioSocket_onmessage env parsed s)"
  by (rule p0_twilioSocket_onmessage_cases [where P = call_failed])
     (simp_all add: call_failed_branches call_failed_p0_branches)

lemma call_failed_p0_fire:
  assumes "call_failed s" and "p0_fire env e s = Some s'"
  shows "call_failed s'"
  using assms
  by (cases e)
     (auto simp: call_failed_p0_twilioSocket_onmessage split: if_splits,
      auto simp: call_failed_def p0_close_agent_def p0_blob_callback_eq
        twilio_send_def)

lemma call_failed_p0_run:
  "call_failed s \<Longrightarrow> p0_run env es s = Some s' \<Longrightarrow> call_failed s'"
proof (induction es arbitrary: s)
  case Nil
  then show ?case by simp
next
  case (Cons e es)
  then obtain s1 where f: "p0_fire env e s = Some s1" and r: "p0_run env es s1 = Some s'"
    by (auto split: option.splits)
  from Cons.IH [OF call_failed_p0_fire [OF Cons.prems(1) f] r] show ?case .
qed

lemma p0_failed_credential_exchange:
  assumes run: "p0_run env es p0_init = Some s"
    and fail: "p0_fire env (FetchDone NotOk) s = Some s'"
    and later: "p0_run env es' s' = Some s''"
  shows "twilio_close_calls s' = Suc (twilio_close_calls s) \<and> twilioSocket s' \<noteq> OPEN \<and>
         twilioSocket s'' \<noteq> OPEN \<and> elevenlabsSocket s'' = None \<and>
         \<not> elevenlabsReady s'' \<and> elevenlabs_sent s'' = []"
proof -
  have inv: "p0_inv env s"
    using p0_inv_run [OF p0_inv_init run] .
  from fail have aw: "awaiting_fetch s"
    and s': "s' = twilio_close (s\<lparr>awaiting_fetch := False\<rparr>)"
    by (auto split: if_splits)
  from inv aw have "elevenlabsSocket s = None" "\<not> elevenlabsReady s" "elevenlabs_sent s = []"
    "twilioSocket s \<noteq> CONNECTING"
    by (auto simp: p0_inv_def)
  then have cf: "call_failed s'"
    by (cases "twilioSocket s") (simp_all add: s' call_failed_def twilio_close_def)
  have cf': "call_failed s''"
    using cf later by (rule call_failed_p0_run)
  have "twilio_close_calls s' = Suc (twilio_close_calls s)"
    by (simp add: s' twilio_close_def)
  with cf cf' show ?thesis by (auto simp: call_failed_def)
qed

subsection \<open>The session identifier and the frames to the caller\<close>

lemma p0_twilioSocket_onmessage_streamSid:
  "streamSid (p0_twilioSocket_onmessage env parsed s) =
     (case start_sid (TwilioMessage parsed) of None \<Rightarrow> streamSid s | Some v \<Rightarrow> v)"
  by (cases parsed)
     (auto simp: p0_twilioSocket_onmessage_def branch_start_def p0_branch_media_def
        p0_close_agent_def split: option.splits)

lemma p0_elevenlabsSocket_onmessage_streamSid:
  "streamSid (p0_elevenlabsSocket_onmessage data s) = streamSid s"
  by (cases data) simp_all

lemma p0_forEach_streamSid:
  "streamSid (snd (p0_forEach env bs s)) = streamSid s \<and>
   twilio_sent (snd (p0_forEach env bs s)) = twilio_sent s"
  by (induction bs arbitrary: s) (simp_all split: option.splits)

lemma p0_elevenlabsSocket_onopen_streamSid:
  "streamSid (p0_elevenlabsSocket_onopen env s) = streamSid s \<and>
   twilio_sent (p0_elevenlabsSocket_onopen env s) = twilio_sent s"
proof (cases "p0_forEach env (p0_audioBuffer s)
                (elevenlabs_send (TextFrame (p0_sessionConfig env))
                   (s\<lparr>elevenlabsReady := True\<rparr>))")
  case (Pair ok s1)
  with p0_forEach_streamSid [of env "p0_audioBuffer s"
      "elevenlabs_send (TextFrame (p0_sessionConfig env)) (s\<lparr>elevenlabsReady := True\<rparr>)"]
  show ?thesis by (cases ok) (simp_all add: p0_elevenlabsSocket_onopen_def)
qed

lemma p0_fire_streamSid:
  "p0_fire env e s = Some s' \<Longrightarrow>
   streamSid s' = (case start_sid e of None \<Rightarrow> streamSid s | Some v \<Rightarrow> v)"
  by (cases e)
     (auto simp: p0_twilioSocket_onmessage_streamSid twilioSocket_onopen_resume_streamSid
        onclose_streamSid p0_elevenlabsSocket_onopen_streamSid p0_blob_callback_eq
        p0_elevenlabsSocket_onmessage_streamSid p0_close_agent_def
        p0_elevenlabsSocket_onerror_def
      split: if_splits)

lemma p0_run_streamSid:
  "p0_run env es s = Some s' \<Longrightarrow> streamSid s' = sid_after (streamSid s) es"
proof (induction es arbitrary: s)
  case Nil
  then show ?case by simp
next
  case (Cons e es)
  then obtain s1 where f: "p0_fire env e s = Some s1" and r: "p0_run env es s1 = Some s'"
    by (auto split: option.splits)
  from Cons.IH [OF r] p0_fire_streamSid [OF f] show ?case by simp
qed





subsection \<open>The queue before the agent leg is ready\<close>

lemma map_filter_snoc:
  "List.map_filter f (xs @ [x]) =
     List.map_filter f xs @ (case f x of None \<Rightarrow> [] | Some y \<Rightarrow> [y])"
  by (simp add: List.map_filter_def split: option.splits)

lemma p0_forEach_ready:
  "elevenlabsReady (snd (p0_forEach env bs s)) = elevenlabsReady s"
  by (induction bs arbitrary: s) (simp_all add: elevenlabs_send_def split: option.splits)

lemma p0_forEach_result_ready:
  "elevenlabsReady
     (case p0_forEach env bs s of
        (True, s') \<Rightarrow> s'\<lparr>p0_audioBuffer := []\<rparr>
      | (False, s') \<Rightarrow> s') = elevenlabsReady s"
  using p0_forEach_ready [of env bs s]
  by (cases "p0_forEach env bs s") (auto split: bool.splits)

lemma p0_elevenlabsSocket_onopen_ready: "elevenlabsReady (p0_elevenlabsSocket_onopen env s)"
  by (simp add: p0_elevenlabsSocket_onopen_def p0_forEach_result_ready elevenlabs_send_def)

lemma p0_fire_before_ready:
  assumes "p0_fire env e s = Some s'" and "\<not> elevenlabsReady s'"
  shows "\<not> elevenlabsReady s \<and>
         List.map_filter (atob_value env) (p0_audioBuffer s') =
           List.map_filter (atob_value env) (p0_audioBuffer s) @
             (case p0_media_audio env e of None \<Rightarrow> [] | Some b \<Rightarrow> [b])"
proof (cases e)
  case (TwilioMessage parsed)
  with assms show ?thesis
    by (cases parsed)
       (auto simp: p0_twilioSocket_onmessage_def branch_start_def p0_branch_media_def
          p0_close_agent_def send_close_defs map_filter_snoc js_get_opt_def
          split: if_splits option.splits)
next
  case (FetchDone r)
  with assms show ?thesis by (cases r) (auto simp: send_close_defs split: if_splits)
next
  case (ElevenlabsMessage data)
  with assms show ?thesis by (cases data) (auto split: if_splits)
next
  case (BlobRead b)
  with assms show ?thesis
    by (auto simp: p0_blob_callback_eq send_close_defs split: if_splits)
next
  case ElevenlabsOpen
  with assms p0_elevenlabsSocket_onopen_ready show ?thesis
    by (auto split: if_splits)
qed (use assms in \<open>auto simp: p0_close_agent_def elevenlabsSocket_onclose_def
       p0_elevenlabsSocket_onerror_def send_close_defs split: if_splits\<close>)

lemma p0_media_payloads_Cons:
  "p0_media_payloads env (e # es) =
     (case p0_media_audio env e of None \<Rightarrow> [] | Some b \<Rightarrow> [b]) @ p0_media_payloads env es"
  by (simp add: p0_media_payloads_def List.map_filter_simps split: option.splits)

lemma p0_run_ready_stays:
  "p0_run env es s = Some s' \<Longrightarrow> elevenlabsReady s \<Longrightarrow> elevenlabsReady s'"
proof (induction es arbitrary: s)
  case Nil
  then show ?case by simp
next
  case (Cons e es)
  then obtain s1 where f: "p0_fire env e s = Some s1" and r: "p0_run env es s1 = Some s'"
    by (auto split: option.splits)
  from p0_fire_before_ready [OF f] Cons.prems(2) have "elevenlabsReady s1" by blast
  with Cons.IH [OF r] show ?case .
qed

lemma p0_run_before_ready:
  "p0_run env es s = Some s' \<Longrightarrow> \<not> elevenlabsReady s' \<Longrightarrow>
   List.map_filter (atob_value env) (p0_audioBuffer s') =
     List.map_filter (atob_value env) (p0_audioBuffer s) @ p0_media_payloads env es"
proof (induction es arbitrary: s)
  case Nil
  then show ?case by (simp add: p0_media_payloads_def List.map_filter_simps)
next
  case (Cons e es)
  then obtain s1 where f: "p0_fire env e s = Some s1" and r: "p0_run env es s1 = Some s'"
    by (auto split: option.splits)
  have nr: "\<not> elevenlabsReady s1"
    using p0_run_ready_stays [OF r] Cons.prems(2) by blast
  from Cons.IH [OF r Cons.prems(2)] p0_fire_before_ready [OF f nr] show ?case
    by (simp add: p0_media_payloads_Cons)
qed

lemma p0_buffered_media_forwarded:
  assumes run: "p0_run env es p0_init = Some s"
    and opened: "p0_fire env ElevenlabsOpen s = Some s'"
  shows "elevenlabs_sent s' =
           TextFrame (p0_sessionConfig env) # map BinaryFrame (p0_media_payloads env es) \<and>
         p0_audioBuffer s' = [] \<and> elevenlabsReady s'"
proof -
  from opened have conn: "elevenlabsSocket s = Some CONNECTING"
    and s': "s' = p0_elevenlabsSocket_onopen env (s\<lparr>elevenlabsSocket := Some OPEN\<rparr>)"
    by (auto split: if_splits)
  have inv: "p0_inv env s"
    using p0_inv_run [OF p0_inv_init run] .
  with conn have nr: "\<not> elevenlabsReady s" and sent: "elevenlabs_sent s = []"
    and dec: "\<forall>b \<in> set (p0_audioBuffer s). atob_value env b \<noteq> None"
    by (simp_all add: p0_inv_def)
  from p0_run_before_ready [OF run nr]
  have buf: "List.map_filter (atob_value env) (p0_audioBuffer s) = p0_media_payloads env es"
    by (simp add: p0_init_def List.map_filter_simps)
  have "s' =
     s\<lparr>elevenlabsSocket := Some OPEN, elevenlabsReady := True,
       elevenlabs_sent :=
         elevenlabs_sent s @ TextFrame (p0_sessionConfig env) #
           map BinaryFrame (List.map_filter (atob_value env) (p0_audioBuffer s)),
       p0_audioBuffer := []\<rparr>"
    unfolding s' using dec by (subst p0_elevenlabsSocket_onopen_eq) simp_all
  with sent buf show ?thesis by simp
qed

lemma p0_text_frames_only_logged:
  "p0_fire env (ElevenlabsMessage (Text r)) s = Some s' \<Longrightarrow> s' = s"
  by (simp split: if_splits)

lemma p1_text_frames_only_logged:
  "p1_fire env (ElevenlabsMessage (Text r)) s = Some s' \<Longrightarrow> s' = s"
  by (simp split: if_splits)

section \<open>Frames to the caller, for the three variants\<close>

lemma json_stringify_eq_JUndefined [simp]: "json_stringify v = JUndefined \<longleftrightarrow> v = JUndefined"
  by (cases v) simp_all

lemma json_stringify_scalar: "json_scalar v \<Longrightarrow> json_stringify v = v"
  by (cases v) simp_all


lemma clear_frame_tagged:
  "truthy sid \<Longrightarrow>
   clear_frame sid =
     TextFrame (JObj [(''event'', JStr ''clear''), (''streamSid'', json_stringify sid)])"
  by (auto simp: clear_frame_def)








section \<open>The claims\<close>

subsection \<open>Caller audio that arrives before the agent leg is ready\<close>

text \<open>
  Claim C1 says that caller audio arriving before the agent leg is ready reaches the
  agent leg after the session-initialization message, in order, nothing dropped. The
  two variants with a queue do so (\<open>p1_buffered_media_forwarded\<close> and
  \<open>p0_buffered_media_forwarded\<close> above). media-bridge.ts has no queue: on the caller
  events \<^verbatim>\<open>start\<close> (SID1) and \<^verbatim>\<open>media\<close> (AAAA) received before the agent socket opens,
  the agent socket has transmitted the session-initialization message and nothing else
  once it is open; the unit AAAA is lost. On the same events part 001 has transmitted
  the message and then the unit (three zero bytes) as a binary frame.
\<close>

theorem media_before_ready_not_forwarded:
  "map_option elevenlabs_sent
     (mb_run sample_env
        [TwilioOpen, TwilioMessage (Some (start_event (JStr ''SID1''))),
         TwilioMessage (Some (media_event (JStr ''AAAA''))),
         FetchDone Ok_signed_url, ElevenlabsOpen] mb_init)
   = Some [TextFrame (mb_initMessage sample_env ''Acme'')] \<and>
   map_option elevenlabs_sent
     (p1_run sample_env
        [TwilioOpen, TwilioMessage (Some (start_event (JStr ''SID1''))),
         TwilioMessage (Some (media_event (JStr ''AAAA''))),
         FetchDone Ok_signed_url, ElevenlabsOpen] p1_init)
   = Some [TextFrame (p1_initMessage sample_env), BinaryFrame [0, 0, 0]]"
proof -
  have "atob ''AAAA'' = Some [0, 0, 0]"
    by (simp add: atob_def ascii_whitespace_def strip_padding_def b64_index_def
        b64_alphabet_def)
  then show ?thesis
    by (simp add: sample_env_def mb_init_def p1_init_def start_event_def media_event_def handler_defs atob_value_def)
qed

subsection \<open>The close cascade\<close>

text \<open>
  Claim C2 says that after either leg closes no connection of the pair remains open.
  In media-bridge.ts the caller socket closes while the agent socket is still
  connecting; \<^verbatim>\<open>twilioSocket.onclose\<close> closes the agent socket only if it is open, so the
  agent socket then opens and stays open, with no \<^verbatim>\<open>close()\<close> ever called on it.
\<close>

theorem agent_left_open_after_caller_close:
  "map_option twilioSocket
     (mb_run sample_env [TwilioOpen, FetchDone Ok_signed_url, TwilioClose, ElevenlabsOpen] mb_init)
     = Some CLOSED \<and>
   map_option elevenlabsSocket
     (mb_run sample_env [TwilioOpen, FetchDone Ok_signed_url, TwilioClose, ElevenlabsOpen] mb_init)
     = Some (Some OPEN) \<and>
   map_option elevenlabs_close_calls
     (mb_run sample_env [TwilioOpen, FetchDone Ok_signed_url, TwilioClose, ElevenlabsOpen] mb_init)
     = Some 0"
  by (simp add: sample_env_def mb_init_def handler_defs)

text \<open>What does hold of the cascade: along every run of media-bridge.ts, \<^verbatim>\<open>close()\<close>
  is called at most once on either socket.\<close>

lemma close_calls_at_most_once:
  "mb_run env es mb_init = Some s \<Longrightarrow>
   twilio_close_calls s \<le> 1 \<and> elevenlabs_close_calls s \<le> 1"
  using lifecycle_inv_mb_run [OF lifecycle_inv_mb_init, of env es s]
  by (auto simp: lifecycle_inv_def)

text \<open>The same in the variant with the queue of decoded units.\<close>

lemma p1_close_calls_at_most_once:
  "p1_run env es p1_init = Some s \<Longrightarrow>
   twilio_close_calls s \<le> 1 \<and> elevenlabs_close_calls s \<le> 1"
  using lifecycle_inv_p1_run [OF lifecycle_inv_p1_init, of env es s]
  by (auto simp: lifecycle_inv_def)

subsection \<open>A failed credential exchange\<close>

text \<open>
  Claim C3. In every state that a call can reach, a credential-exchange response that is
  not ok makes the handler call \<^verbatim>\<open>close()\<close> on the caller socket, which is then no longer
  open; and in every state that follows, whatever events arrive, no agent socket has
  been created, the ready flag is false, and nothing has been sent to an agent. This
  holds for each of the three variants.
\<close>

theorem failed_credential_exchange:
  fixes s s' s'' :: bridge_state and t t' t'' :: p1_state and u u' u'' :: p0_state
  shows
    "(mb_run env es mb_init = Some s \<and> mb_fire env (FetchDone NotOk) s = Some s' \<and>
      mb_run env es' s' = Some s'' \<longrightarrow>
        twilio_close_calls s' = Suc (twilio_close_calls s) \<and> twilioSocket s' \<noteq> OPEN \<and>
        twilioSocket s'' \<noteq> OPEN \<and> elevenlabsSocket s'' = None \<and>
        \<not> elevenlabsReady s'' \<and> elevenlabs_sent s'' = []) \<and>
     (p1_run env es p1_init = Some t \<and> p1_fire env (FetchDone NotOk) t = Some t' \<and>
      p1_run env es' t' = Some t'' \<longrightarrow>
        twilio_close_calls t' = Suc (twilio_close_calls t) \<and> twilioSocket t' \<noteq> OPEN \<and>
        twilioSocket t'' \<noteq> OPEN \<and> elevenlabsSocket t'' = None \<and>
        \<not> elevenlabsReady t'' \<and> elevenlabs_sent t'' = []) \<and>
     (p0_run env es p0_init = Some u \<and> p0_fire env (FetchDone NotOk) u = Some u' \<and>
      p0_run env es' u' = Some u'' \<longrightarrow>
        twilio_close_calls u' = Suc (twilio_close_calls u) \<and> twilioSocket u' \<noteq> OPEN \<and>
        twilioSocket u'' \<noteq> OPEN \<and> elevenlabsSocket u'' = None \<and>
        \<not> elevenlabsReady u'' \<and> elevenlabs_sent u'' = [])"
  using mb_failed_credential_exchange [of env es s s' es' s'']
    p1_failed_credential_exchange [of env es t t' es' t'']
    p0_failed_credential_exchange [of env es u u' es' u'']
  by blast

text \<open>The caller socket opens, a media event arrives, the exchange fails, the caller
  socket closes.\<close>

theorem failed_credential_exchange_witness:
  "mb_run sample_env [TwilioOpen, TwilioMessage (Some (media_event (JStr ''AAAA'')))] mb_init
     = Some mb_awaiting_state \<and>
   mb_fire sample_env (FetchDone NotOk) mb_awaiting_state
     = Some (twilio_close (mb_awaiting_state\<lparr>awaiting_fetch := False\<rparr>)) \<and>
   mb_run sample_env [TwilioClose] (twilio_close (mb_awaiting_state\<lparr>awaiting_fetch := False\<rparr>))
     = Some ((twilio_close (mb_awaiting_state\<lparr>awaiting_fetch := False\<rparr>))\<lparr>twilioSocket := CLOSED\<rparr>) \<and>
   twilioSocket (twilio_close (mb_awaiting_state\<lparr>awaiting_fetch := False\<rparr>)) = CLOSING \<and>
   elevenlabsSocket
     ((twilio_close (mb_awaiting_state\<lparr>awaiting_fetch := False\<rparr>))\<lparr>twilioSocket := CLOSED\<rparr>) = None"
proof -
  let ?s' = "twilio_close (mb_awaiting_state\<lparr>awaiting_fetch := False\<rparr>)"
  have h1: "mb_run sample_env
      [TwilioOpen, TwilioMessage (Some (media_event (JStr ''AAAA'')))] mb_init
      = Some mb_awaiting_state"
    by (simp add: sample_env_def mb_init_def mb_awaiting_state_def media_event_def handler_defs)
  have h2: "mb_fire sample_env (FetchDone NotOk) mb_awaiting_state = Some ?s'"
    by (simp add: sample_env_def mb_init_def mb_awaiting_state_def media_event_def handler_defs)
  have h3: "mb_run sample_env [TwilioClose] ?s' = Some (?s'\<lparr>twilioSocket := CLOSED\<rparr>)"
    by (simp add: sample_env_def mb_init_def mb_awaiting_state_def media_event_def handler_defs)
  from failed_credential_exchange [THEN conjunct1, rule_format, OF conjI [OF h1 conjI [OF h2 h3]]]
  have "elevenlabsSocket (?s'\<lparr>twilioSocket := CLOSED\<rparr>) = None" by simp
  moreover have "twilioSocket ?s' = CLOSING" by (simp add: sample_env_def mb_init_def mb_awaiting_state_def media_event_def handler_defs)
  ultimately show ?thesis using h1 h2 h3 by simp
qed

subsection \<open>The session identifier on frames to the caller\<close>




subsection \<open>Further \<^verbatim>\<open>start\<close> events\<close>

text \<open>
  Claim C5 says that the session identifier, once set, is never overwritten. It is:
  after \<^verbatim>\<open>start\<close> events with SID1 and then SID2 the identifier is SID2.
\<close>

theorem second_start_overwrites:
  "map_option streamSid
     (mb_run sample_env
        [TwilioOpen, TwilioMessage (Some (start_event (JStr ''SID1''))),
         TwilioMessage (Some (start_event (JStr ''SID2'')))] mb_init)
   = Some (JStr ''SID2'')"
  by (simp add: sample_env_def mb_init_def start_event_def handler_defs)

text \<open>
  Claim C5 as amended. The session identifier is at every moment the one recorded by
  the most recent \<^verbatim>\<open>start\<close> event (null before the first): a \<^verbatim>\<open>start\<close> event sets it to its
  \<^verbatim>\<open>start.streamSid\<close>, also when one is set already, and no other event changes it. This
  holds for each of the three variants.
\<close>

theorem streamSid_is_last_start:
  fixes s s' :: bridge_state and t t' :: p1_state and u u' :: p0_state
  shows
    "(mb_run env es mb_init = Some s \<longrightarrow> streamSid s = recorded_sid es) \<and>
     (mb_fire env e s = Some s' \<longrightarrow>
        streamSid s' = (case start_sid e of None \<Rightarrow> streamSid s | Some sid \<Rightarrow> sid)) \<and>
     (p1_run env es p1_init = Some t \<longrightarrow> streamSid t = recorded_sid es) \<and>
     (p1_fire env e t = Some t' \<longrightarrow>
        streamSid t' = (case start_sid e of None \<Rightarrow> streamSid t | Some sid \<Rightarrow> sid)) \<and>
     (p0_run env es p0_init = Some u \<longrightarrow> streamSid u = recorded_sid es) \<and>
     (p0_fire env e u = Some u' \<longrightarrow>
        streamSid u' = (case start_sid e of None \<Rightarrow> streamSid u | Some sid \<Rightarrow> sid))"
  using mb_run_streamSid [of env es mb_init s] mb_fire_streamSid [of env e s s']
    p1_run_streamSid [of env es p1_init t] p1_fire_streamSid [of env e t t']
    p0_run_streamSid [of env es p0_init u] p0_fire_streamSid [of env e u u']
  by (simp add: recorded_sid_def mb_init_def p1_init_def p0_init_def)

text \<open>A run with two \<^verbatim>\<open>start\<close> events: the identifier is the one of the second.\<close>

theorem streamSid_is_last_start_witness:
  "mb_run sample_env
     [TwilioOpen, TwilioMessage (Some (start_event (JStr ''SID1''))),
      TwilioMessage (Some (start_event (JStr ''SID2'')))] mb_init
     = Some (mb_awaiting_state\<lparr>streamSid := JStr ''SID2''\<rparr>) \<and>
   streamSid (mb_awaiting_state\<lparr>streamSid := JStr ''SID2''\<rparr>) =
     recorded_sid
       [TwilioOpen, TwilioMessage (Some (start_event (JStr ''SID1''))),
        TwilioMessage (Some (start_event (JStr ''SID2'')))] \<and>
   recorded_sid
     [TwilioOpen, TwilioMessage (Some (start_event (JStr ''SID1''))),
      TwilioMessage (Some (start_event (JStr ''SID2'')))] = JStr ''SID2''"
proof -
  let ?es = "[TwilioOpen, TwilioMessage (Some (start_event (JStr ''SID1''))),
      TwilioMessage (Some (start_event (JStr ''SID2'')))]"
  let ?s = "mb_awaiting_state\<lparr>streamSid := JStr ''SID2''\<rparr>"
  have h1: "mb_run sample_env ?es mb_init = Some ?s"
    by (simp add: sample_env_def mb_init_def mb_awaiting_state_def start_event_def handler_defs)
  from streamSid_is_last_start [THEN conjunct1, rule_format, OF h1]
  have "streamSid ?s = recorded_sid ?es" .
  moreover have "streamSid ?s = JStr ''SID2''"
    by simp
  ultimately show ?thesis using h1 by simp
qed

subsection \<open>Keep-alive pings\<close>

text \<open>What media-bridge.ts does with a ping of the agent whose event identifier \<open>X\<close> is
  a non-empty string, a finite number other than 0 or \<^verbatim>\<open>true\<close>, received on the open agent
  socket: it sends one frame to the agent, \<^verbatim>\<open>{type: "pong", event_id: X}\<close>, and changes
  nothing else.\<close>

lemma mb_ping_pong:
  assumes "json_parse data = Some message"
    and "js_get message ''type'' = Some (JStr ''ping'')"
    and "js_get_opt (js_field message ''ping_event'') ''event_id'' = X"
    and "truthy X" and "json_scalar X"
    and "elevenlabsSocket s = Some OPEN"
  shows "mb_fire env (ElevenlabsMessage data) s =
           Some (s\<lparr>elevenlabs_sent := elevenlabs_sent s @
                   [TextFrame (JObj [(''type'', JStr ''pong''), (''event_id'', X)])]\<rparr>)"
proof -
  from assms(3,4) have "js_field (js_field message ''ping_event'') ''event_id'' = X"
    by (auto simp: js_get_opt_def split: if_splits)
  moreover from assms(4) have "X \<noteq> JUndefined" by auto
  ultimately show ?thesis
    using assms json_stringify_scalar [of X]
    by (simp add: mb_elevenlabsSocket_onmessage_def mb_case_ping_def elevenlabs_send_def
        pong_frame_def)
qed

text \<open>
  Claim C6 says that every ping carrying an event identifier is answered by one pong
  with that identifier. media-bridge.ts answers the ping with the identifier 7 (lines
  115 to 123, under the comment \<^verbatim>\<open>Respond to ping with pong\<close>). Part 000 and part 001 have
  no case for pings: on the same events they send nothing after the
  session-initialization message. media-bridge.ts itself tests the identifier for
  truthiness, so the ping with the identifier 0 gets no pong; and its pong for the
  identifier \<^verbatim>\<open>1e400\<close>, which is read as \<^verbatim>\<open>Infinity\<close>, carries \<^verbatim>\<open>null\<close>.
\<close>

theorem ping_not_answered:
  "map_option elevenlabs_sent
     (mb_run sample_env
        [TwilioOpen, FetchDone Ok_signed_url, ElevenlabsOpen,
         ElevenlabsMessage (Text (Some (ping_message (JNum 7))))] mb_init)
   = Some [TextFrame (mb_initMessage sample_env ''Acme''),
           TextFrame (JObj [(''type'', JStr ''pong''), (''event_id'', JNum 7)])] \<and>
   map_option elevenlabs_sent
     (p0_run sample_env
        [TwilioOpen, FetchDone Ok_signed_url, ElevenlabsOpen,
         ElevenlabsMessage (Text (Some (ping_message (JNum 7))))] p0_init)
   = Some [TextFrame (p0_sessionConfig sample_env)] \<and>
   map_option elevenlabs_sent
     (p1_run sample_env
        [TwilioOpen, FetchDone Ok_signed_url, ElevenlabsOpen,
         ElevenlabsMessage (Text (Some (ping_message (JNum 7))))] p1_init)
   = Some [TextFrame (p1_initMessage sample_env)] \<and>
   map_option elevenlabs_sent
     (mb_run sample_env
        [TwilioOpen, FetchDone Ok_signed_url, ElevenlabsOpen,
         ElevenlabsMessage (Text (Some (ping_message (JNum 0))))] mb_init)
   = Some [TextFrame (mb_initMessage sample_env ''Acme'')] \<and>
   map_option elevenlabs_sent
     (mb_run sample_env
        [TwilioOpen, FetchDone Ok_signed_url, ElevenlabsOpen,
         ElevenlabsMessage (Text (Some (ping_message (JInfinity False))))] mb_init)
   = Some [TextFrame (mb_initMessage sample_env ''Acme''),
           TextFrame (JObj [(''type'', JStr ''pong''), (''event_id'', JNull)])]"
  by (simp add: sample_env_def mb_init_def p0_init_def p1_init_def ping_message_def
      handler_defs p0_elevenlabsSocket_onopen_def)

subsection \<open>Interruptions\<close>

text \<open>
  Claim C7 says that every interruption event produces one clear frame. In
  media-bridge.ts it produces none before a \<^verbatim>\<open>start\<close> event has set the session
  identifier. Part 001 has no case for interruptions: it produces none there, also
  after a \<^verbatim>\<open>start\<close> event.
\<close>

theorem interruption_without_clear:
  "map_option twilio_sent
     (mb_run sample_env
        [TwilioOpen, FetchDone Ok_signed_url, ElevenlabsOpen,
         ElevenlabsMessage (Text (Some interruption_message))] mb_init)
   = Some [] \<and>
   map_option twilio_sent
     (p1_run sample_env
        [TwilioOpen, TwilioMessage (Some (start_event (JStr ''SID1''))),
         FetchDone Ok_signed_url, ElevenlabsOpen,
         ElevenlabsMessage (Text (Some interruption_message))] p1_init)
   = Some []"
  by (simp add: sample_env_def mb_init_def p1_init_def start_event_def interruption_message_def handler_defs)

text \<open>
  Claim C7 as amended. For every interruption event of the agent delivered to
  media-bridge.ts while the session identifier is \<^verbatim>\<open>null\<close>, a string, a finite number or a
  boolean: if the identifier is truthy and the caller socket is open, the caller socket
  transmits exactly one frame \<^verbatim>\<open>{event: "clear", streamSid}\<close>, which carries the identifier
  and no payload, and nothing else changes; otherwise nothing is transmitted and nothing
  changes. The frame is transmitted in the handler itself, so whatever the caller socket
  transmits later comes after it.
\<close>

theorem interruption_clear:
  assumes "json_parse data = Some message"
    and "js_get message ''type'' = Some (JStr ''interruption'')"
    and "mb_fire env (ElevenlabsMessage data) s = Some s'"
    and "mb_run env es s' = Some s''"
    and "json_scalar (streamSid s)"
  shows "s' = (if truthy (streamSid s) \<and> twilioSocket s = OPEN
               then s\<lparr>twilio_sent := twilio_sent s @
                      [TextFrame (JObj [(''event'', JStr ''clear''),
                                        (''streamSid'', streamSid s)])]\<rparr>
               else s) \<and>
         (\<exists>later. twilio_sent s'' = twilio_sent s' @ later)"
proof -
  have "s' = mb_case_interruption s"
    using assms(1-3) by (auto simp: mb_elevenlabsSocket_onmessage_def split: if_splits)
  then have "s' = (if truthy (streamSid s) \<and> twilioSocket s = OPEN
               then s\<lparr>twilio_sent := twilio_sent s @
                      [TextFrame (JObj [(''event'', JStr ''clear''),
                                        (''streamSid'', streamSid s)])]\<rparr>
               else s)"
    using json_stringify_scalar [OF assms(5)]
    by (simp add: mb_case_interruption_def twilio_send_def clear_frame_tagged)
  with mb_run_twilio_sent_grows [OF assms(4)] show ?thesis by blast
qed

text \<open>An interruption and then an audio chunk: the clear frame precedes the media
  frame.\<close>

theorem interruption_clear_witness:
  "json_parse (Text (Some interruption_message)) = Some interruption_message \<and>
   js_get interruption_message ''type'' = Some (JStr ''interruption'') \<and>
   json_scalar (streamSid (mb_ready_state (JStr ''SID1''))) \<and>
   mb_fire sample_env (ElevenlabsMessage (Text (Some interruption_message)))
     (mb_ready_state (JStr ''SID1'')) =
     Some ((mb_ready_state (JStr ''SID1''))
       \<lparr>twilio_sent :=
          [TextFrame (JObj [(''event'', JStr ''clear''), (''streamSid'', JStr ''SID1'')])]\<rparr>) \<and>
   mb_run sample_env [ElevenlabsMessage (Text (Some (audio_message (JStr ''BBBB''))))]
     ((mb_ready_state (JStr ''SID1''))
       \<lparr>twilio_sent :=
          [TextFrame (JObj [(''event'', JStr ''clear''), (''streamSid'', JStr ''SID1'')])]\<rparr>) =
     Some ((mb_ready_state (JStr ''SID1''))
       \<lparr>twilio_sent :=
          [TextFrame (JObj [(''event'', JStr ''clear''), (''streamSid'', JStr ''SID1'')]),
           TextFrame (JObj [(''event'', JStr ''media''), (''streamSid'', JStr ''SID1''),
                            (''media'', JObj [(''payload'', JStr ''BBBB'')])])]\<rparr>)"
proof -
  let ?s = "mb_ready_state (JStr ''SID1'')"
  let ?s' = "?s\<lparr>twilio_sent :=
          [TextFrame (JObj [(''event'', JStr ''clear''), (''streamSid'', JStr ''SID1'')])]\<rparr>"
  let ?s'' = "?s\<lparr>twilio_sent :=
          [TextFrame (JObj [(''event'', JStr ''clear''), (''streamSid'', JStr ''SID1'')]),
           TextFrame (JObj [(''event'', JStr ''media''), (''streamSid'', JStr ''SID1''),
                            (''media'', JObj [(''payload'', JStr ''BBBB'')])])]\<rparr>"
  have h1: "json_parse (Text (Some interruption_message)) = Some interruption_message"
    by simp
  have h2: "js_get interruption_message ''type'' = Some (JStr ''interruption'')"
    by (simp add: interruption_message_def js_get_def)
  have h3: "json_scalar (streamSid ?s)"
    by (simp add: mb_ready_state_def)
  have h4: "mb_fire sample_env (ElevenlabsMessage (Text (Some interruption_message))) ?s
      = Some ?s'"
    by (simp add: sample_env_def mb_ready_state_def interruption_message_def audio_message_def handler_defs)
  have h5: "mb_run sample_env
      [ElevenlabsMessage (Text (Some (audio_message (JStr ''BBBB''))))] ?s' = Some ?s''"
    by (simp add: sample_env_def mb_ready_state_def interruption_message_def audio_message_def handler_defs)
  from interruption_clear [OF h1 h2 h4 h5 h3] h1 h2 h3 h4 h5
  show ?thesis by simp
qed

subsection \<open>The audio codec\<close>




subsection \<open>A ping without an event identifier\<close>

text \<open>
  Claim C9. For every ping event of the agent whose \<^verbatim>\<open>ping_event.event_id\<close> is missing
  (\<^verbatim>\<open>undefined\<close>) or empty (\<^verbatim>\<open>null\<close> or the empty string), delivered on the agent socket,
  media-bridge.ts leaves the state as it is: no pong is sent, no socket is closed, and
  the events that follow are handled as if the ping had not arrived. The two other
  variants leave the state as it is on every text frame of the agent.
\<close>

theorem ping_without_event_id:
  assumes "json_parse data = Some message"
    and "js_get message ''type'' = Some (JStr ''ping'')"
    and "js_get_opt (js_field message ''ping_event'') ''event_id'' \<in> {JUndefined, JNull, JStr ''''}"
    and "elevenlabsSocket s = Some OPEN \<or> elevenlabsSocket s = Some CLOSING"
  shows "mb_fire env (ElevenlabsMessage data) s = Some s \<and>
         mb_run env (ElevenlabsMessage data # es) s = mb_run env es s \<and>
         (p1_fire env (ElevenlabsMessage data) t = Some t' \<longrightarrow> t' = t) \<and>
         (p0_fire env (ElevenlabsMessage data) u = Some u' \<longrightarrow> u' = u)"
proof -
  from assms(3) have "\<not> truthy (js_get_opt (js_field message ''ping_event'') ''event_id'')"
    by auto
  with assms have "mb_fire env (ElevenlabsMessage data) s = Some s"
    by (simp add: mb_elevenlabsSocket_onmessage_def mb_case_ping_def)
  moreover from assms(1) have "data = Text (Some message)"
    by (cases data) simp_all
  ultimately show ?thesis by (auto split: if_splits)
qed

text \<open>A ping without a \<^verbatim>\<open>ping_event\<close>.\<close>

theorem ping_without_event_id_witness:
  "json_parse (Text (Some (JObj [(''type'', JStr ''ping'')])))
     = Some (JObj [(''type'', JStr ''ping'')]) \<and>
   js_get (JObj [(''type'', JStr ''ping'')]) ''type'' = Some (JStr ''ping'') \<and>
   js_get_opt (js_field (JObj [(''type'', JStr ''ping'')]) ''ping_event'') ''event_id''
     = JUndefined \<and>
   elevenlabsSocket (mb_ready_state JNull) = Some OPEN \<and>
   mb_fire sample_env (ElevenlabsMessage (Text (Some (JObj [(''type'', JStr ''ping'')]))))
     (mb_ready_state JNull) = Some (mb_ready_state JNull)"
proof -
  let ?m = "JObj [(''type'', JStr ''ping'')]"
  have h1: "json_parse (Text (Some ?m)) = Some ?m" by simp
  have h2: "js_get ?m ''type'' = Some (JStr ''ping'')" by (simp add: js_get_def)
  have e3: "js_get_opt (js_field ?m ''ping_event'') ''event_id'' = JUndefined"
    by (simp add: js_get_opt_def)
  then have h3: "js_get_opt (js_field ?m ''ping_event'') ''event_id''
      \<in> {JUndefined, JNull, JStr ''''}" by simp
  have e4: "elevenlabsSocket (mb_ready_state JNull) = Some OPEN"
    by (simp add: mb_ready_state_def)
  then have h4: "elevenlabsSocket (mb_ready_state JNull) = Some OPEN \<or>
      elevenlabsSocket (mb_ready_state JNull) = Some CLOSING" by simp
  from ping_without_event_id [OF h1 h2 h3 h4, of sample_env "[]"] h1 h2 e3 e4
  show ?thesis by simp
qed

subsection \<open>An audio event without a payload\<close>

text \<open>
  Claim C10. For every audio event of the agent that has neither \<^verbatim>\<open>audio.chunk\<close> nor
  \<^verbatim>\<open>audio_event.audio_base_64\<close>, delivered on the agent socket, media-bridge.ts leaves the
  state as it is: no frame goes to the caller, no socket is closed, and the events that
  follow are handled as if the event had not arrived. The two other variants leave the
  state as it is on every text frame of the agent.
\<close>

theorem audio_without_payload:
  assumes "json_parse data = Some message"
    and "js_get message ''type'' = Some (JStr ''audio'')"
    and "js_get_opt (js_field message ''audio'') ''chunk'' = JUndefined"
    and "js_get_opt (js_field message ''audio_event'') ''audio_base_64'' = JUndefined"
    and "elevenlabsSocket s = Some OPEN \<or> elevenlabsSocket s = Some CLOSING"
  shows "mb_fire env (ElevenlabsMessage data) s = Some s \<and>
         mb_run env (ElevenlabsMessage data # es) s = mb_run env es s \<and>
         (p1_fire env (ElevenlabsMessage data) t = Some t' \<longrightarrow> t' = t) \<and>
         (p0_fire env (ElevenlabsMessage data) u = Some u' \<longrightarrow> u' = u)"
proof -
  from assms have "mb_fire env (ElevenlabsMessage data) s = Some s"
    by (simp add: mb_elevenlabsSocket_onmessage_def mb_case_audio_def js_or_def)
  moreover from assms(1) have "data = Text (Some message)"
    by (cases data) simp_all
  ultimately show ?thesis by (auto split: if_splits)
qed

text \<open>An audio event with no other field, after a \<^verbatim>\<open>start\<close> event.\<close>

theorem audio_without_payload_witness:
  "json_parse (Text (Some (JObj [(''type'', JStr ''audio'')])))
     = Some (JObj [(''type'', JStr ''audio'')]) \<and>
   js_get (JObj [(''type'', JStr ''audio'')]) ''type'' = Some (JStr ''audio'') \<and>
   js_get_opt (js_field (JObj [(''type'', JStr ''audio'')]) ''audio'') ''chunk'' = JUndefined \<and>
   js_get_opt (js_field (JObj [(''type'', JStr ''audio'')]) ''audio_event'') ''audio_base_64''
     = JUndefined \<and>
   elevenlabsSocket (mb_ready_state (JStr ''SID1'')) = Some OPEN \<and>
   mb_fire sample_env (ElevenlabsMessage (Text (Some (JObj [(''type'', JStr ''audio'')]))))
     (mb_ready_state (JStr ''SID1'')) = Some (mb_ready_state (JStr ''SID1''))"
proof -
  let ?m = "JObj [(''type'', JStr ''audio'')]"
  have h1: "json_parse (Text (Some ?m)) = Some ?m" by simp
  have h2: "js_get ?m ''type'' = Some (JStr ''audio'')" by (simp add: js_get_def)
  have h3: "js_get_opt (js_field ?m ''audio'') ''chunk'' = JUndefined"
    by (simp add: js_get_opt_def)
  have h4: "js_get_opt (js_field ?m ''audio_event'') ''audio_base_64'' = JUndefined"
    by (simp add: js_get_opt_def)
  have e5: "elevenlabsSocket (mb_ready_state (JStr ''SID1'')) = Some OPEN"
    by (simp add: mb_ready_state_def)
  then have h5: "elevenlabsSocket (mb_ready_state (JStr ''SID1'')) = Some OPEN \<or>
      elevenlabsSocket (mb_ready_state (JStr ''SID1'')) = Some CLOSING" by simp
  from audio_without_payload [OF h1 h2 h3 h4 h5, of sample_env "[]"] h1 h2 h3 h4 e5
  show ?thesis by simp
qed

end
